theory Spec2Isabelle
  imports Complex_Main "HOL-Library.Signed_Division"
begin

section \<open>The distributed block-cyclic dense matrix of STRUMPACK\<close>

text \<open>
  A shallow embedding of \<^verbatim>\<open>src/dense/DistributedMatrix.hpp\<close>. One worker of the
  SPMD program is modelled: the fields of its matrix objects, and the heap of buffers the
  objects point into. The template parameter \<^verbatim>\<open>scalar_t\<close> is instantiated by the real
  numbers.
\<close>

subsection \<open>Failures\<close>

datatype error =
    AssertionFailure
  | NullPointer
  | OutOfBounds
  | BadAlloc
  | InvalidFree
  | UninitializedRead
  | DivisionTrap
  | Aborted

definition bindE :: "error + 'a \<Rightarrow> ('a \<Rightarrow> error + 'b) \<Rightarrow> error + 'b" where
  "bindE x f = (case x of Inl e \<Rightarrow> Inl e | Inr v \<Rightarrow> f v)"

fun fold_res :: "('b \<Rightarrow> 's \<Rightarrow> error + 's) \<Rightarrow> 'b list \<Rightarrow> 's \<Rightarrow> error + 's" where
  "fold_res f [] s = Inr s"
| "fold_res f (x # xs) s = (case f x s of Inl e \<Rightarrow> Inl e | Inr s' \<Rightarrow> fold_res f xs s')"

subsection \<open>The type \<^verbatim>\<open>int\<close> and the index arithmetic (lines 45--54)\<close>

text \<open>
  The C++ type \<^verbatim>\<open>int\<close> has 32 bits. A value of the type is an integer from
  \<open>- 2^31\<close> to \<open>INT_MAX\<close>; the sum, difference and product of two values wrap around
  to the type, as the machine computes them (the overflow is undefined behaviour in
  C++); \<^verbatim>\<open>/\<close> and \<^verbatim>\<open>%\<close> truncate towards zero, and trap on the divisor 0 and on
  \<open>- 2^31\<close> divided by \<open>-1\<close>. The index arithmetic, the allocation sizes of the
  constructors and the arithmetic of \<^verbatim>\<open>ID_column\<close> are written with these operations.
  The offset \<^verbatim>\<open>r + ld()*c\<close> of an element, the sums over \<^verbatim>\<open>std::size_t\<close> and the
  counters of the loops are left as integers: they stay in the type on every run that
  is evaluated below.
\<close>

definition INT_MAX :: int where
  "INT_MAX = 2 ^ 31 - 1"

definition int32 :: "int \<Rightarrow> int" where
  "int32 x = (x + 2 ^ 31) mod 2 ^ 32 - 2 ^ 31"

definition add32 :: "int \<Rightarrow> int \<Rightarrow> int" where
  "add32 a b = int32 (a + b)"

definition sub32 :: "int \<Rightarrow> int \<Rightarrow> int" where
  "sub32 a b = int32 (a - b)"

definition mul32 :: "int \<Rightarrow> int \<Rightarrow> int" where
  "mul32 a b = int32 (a * b)"

definition div32 :: "int \<Rightarrow> int \<Rightarrow> error + int" where
  "div32 a b =
     (if b = 0 \<or> (a = - (2 ^ 31) \<and> b = - 1) then Inl DivisionTrap else Inr (a sdiv b))"

definition mod32 :: "int \<Rightarrow> int \<Rightarrow> error + int" where
  "mod32 a b =
     (if b = 0 \<or> (a = - (2 ^ 31) \<and> b = - 1) then Inl DivisionTrap else Inr (a smod b))"

text \<open>
  \<^verbatim>\<open>NPROCS*NB*((INDXLOC-1)/NB) + (INDXLOC-1) % NB + ((NPROCS+IPROC-ISRCPROC) % NPROCS)*NB + 1\<close>
\<close>

definition indxl2g :: "int \<Rightarrow> int \<Rightarrow> int \<Rightarrow> int \<Rightarrow> int \<Rightarrow> error + int" where
  "indxl2g INDXLOC NB IPROC ISRCPROC NPROCS =
     bindE (div32 (sub32 INDXLOC 1) NB) (\<lambda>q.
     bindE (mod32 (sub32 INDXLOC 1) NB) (\<lambda>r.
     bindE (mod32 (sub32 (add32 NPROCS IPROC) ISRCPROC) NPROCS) (\<lambda>d.
       Inr (add32 (add32 (add32 (mul32 (mul32 NPROCS NB) q) r) (mul32 d NB)) 1))))"

text \<open>\<^verbatim>\<open>NB*((INDXGLOB-1)/(NB*NPROCS)) + (INDXGLOB-1) % NB + 1\<close>\<close>

definition indxg2l :: "int \<Rightarrow> int \<Rightarrow> int \<Rightarrow> int \<Rightarrow> int \<Rightarrow> error + int" where
  "indxg2l INDXGLOB NB IPROC ISRCPROC NPROCS =
     bindE (div32 (sub32 INDXGLOB 1) (mul32 NB NPROCS)) (\<lambda>q.
     bindE (mod32 (sub32 INDXGLOB 1) NB) (\<lambda>r.
       Inr (add32 (add32 (mul32 NB q) r) 1)))"

text \<open>\<^verbatim>\<open>( ISRCPROC + (INDXGLOB - 1) / NB ) % NPROCS\<close>\<close>

definition indxg2p :: "int \<Rightarrow> int \<Rightarrow> int \<Rightarrow> int \<Rightarrow> int \<Rightarrow> error + int" where
  "indxg2p INDXGLOB NB IPROC ISRCPROC NPROCS =
     bindE (div32 (sub32 INDXGLOB 1) NB) (\<lambda>q. mod32 (add32 ISRCPROC q) NPROCS)"

subsection \<open>The heap of buffers, the process grid\<close>

type_synonym addr = nat

text \<open>
  The heap of one worker is the list of its buffers by address, in the order of their
  allocation; a freed buffer is \<open>None\<close>. A buffer made by \<^verbatim>\<open>new scalar_t[n]\<close> holds
  \<open>n\<close> cells; a cell that was never written is \<open>None\<close>. \<^verbatim>\<open>delete[]\<close> of the null
  pointer does nothing.
\<close>

type_synonym heap = "real option list option list"

definition buffer_at :: "heap \<Rightarrow> addr \<Rightarrow> real option list option" where
  "buffer_at h a = (if a < length h then h ! a else None)"

definition new_array :: "int \<Rightarrow> heap \<Rightarrow> error + (addr \<times> heap)" where
  "new_array n h =
     (if n < 0 then Inl BadAlloc
      else Inr (length h, h @ [Some (replicate (nat n) None)]))"

definition delete_array :: "addr option \<Rightarrow> heap \<Rightarrow> error + heap" where
  "delete_array p h =
     (case p of
        None \<Rightarrow> Inr h
      | Some a \<Rightarrow>
          (case buffer_at h a of
             None \<Rightarrow> Inl InvalidFree
           | Some buf \<Rightarrow> Inr (h[a := None])))"

text \<open>
  Modelled from the spec: \<^verbatim>\<open>BLACSGrid.hpp\<close> is not among the sources. A grid is the
  record of what its accessors \<^verbatim>\<open>active()\<close>, \<^verbatim>\<open>ctxt()\<close>, \<^verbatim>\<open>ctxt_all()\<close>, \<^verbatim>\<open>nprows()\<close>,
  \<^verbatim>\<open>npcols()\<close>, \<^verbatim>\<open>prow()\<close> and \<^verbatim>\<open>pcol()\<close> return on this worker; it is immutable, and
  the pointer \<^verbatim>\<open>const BLACSGrid*\<close> is an option (\<open>None\<close> is \<^verbatim>\<open>nullptr\<close>).
\<close>

record BLACSGrid =
  g_active :: bool
  g_ctxt :: int
  g_ctxt_all :: int
  g_nprows :: int
  g_npcols :: int
  g_prow :: int
  g_pcol :: int

text \<open>
  Modelled from the spec: the enumerations \<^verbatim>\<open>Side\<close>, \<^verbatim>\<open>UpLo\<close>, \<^verbatim>\<open>Trans\<close> and \<^verbatim>\<open>Diag\<close>
  of the dense kernels are declared in \<^verbatim>\<open>DenseMatrix.hpp\<close>, which is not among the
  sources.
\<close>

datatype Side = Side_L | Side_R

datatype UpLo = UpLo_U | UpLo_L

datatype Trans = Trans_N | Trans_T | Trans_C

datatype Diag = Diag_U | Diag_N

text \<open>
  Modelled from the spec: \<^verbatim>\<open>ScaLAPACKWrapper.hpp\<close> and the library behind it are not
  among the sources. The services the matrix code calls are parameters: \<open>numroc\<close> (the
  local share of a dimension), the status of \<open>descinit\<close>, \<open>infog2l\<close> (the local
  position of a global position), the norm kernel \<open>plange\<close>, the redistribution
  \<open>pgemr2d\<close> acting on the heap, the default random stream seeded by the grid
  coordinates, the factorisation kernels \<open>pgeqrf\<close> and \<open>pxxgqr\<close>, which return
  their status and the heap they leave, the rank-revealing factorisation \<open>pgeqpfmod\<close>,
  which returns the pivoted column indices, the column permutation, the rank and the
  heap, and the triangular solve \<open>ptrsm\<close>.
\<close>

record kernels =
  numroc :: "int \<Rightarrow> int \<Rightarrow> int \<Rightarrow> int \<Rightarrow> int \<Rightarrow> int"
  descinit_info :: "int \<Rightarrow> int \<Rightarrow> int \<Rightarrow> int \<Rightarrow> int \<Rightarrow> int \<Rightarrow> int \<Rightarrow> int \<Rightarrow> int"
  infog2l :: "int \<Rightarrow> int \<Rightarrow> int list \<Rightarrow> int \<Rightarrow> int \<Rightarrow> int \<Rightarrow> int \<Rightarrow> int \<times> int"
  plange :: "char \<Rightarrow> int \<Rightarrow> int \<Rightarrow> addr option \<Rightarrow> int \<Rightarrow> int \<Rightarrow> int list \<Rightarrow> heap \<Rightarrow> real"
  pgemr2d :: "int \<Rightarrow> int \<Rightarrow> addr option \<Rightarrow> int \<Rightarrow> int \<Rightarrow> int list \<Rightarrow>
              addr option \<Rightarrow> int \<Rightarrow> int \<Rightarrow> int list \<Rightarrow> int \<Rightarrow> heap \<Rightarrow> heap"
  default_rgen :: "int \<Rightarrow> int \<Rightarrow> nat \<Rightarrow> real"
  pgeqrf :: "int \<Rightarrow> int \<Rightarrow> addr option \<Rightarrow> int \<Rightarrow> int \<Rightarrow> int list \<Rightarrow> addr \<Rightarrow> heap
             \<Rightarrow> int \<times> heap"
  pxxgqr :: "int \<Rightarrow> int \<Rightarrow> int \<Rightarrow> addr option \<Rightarrow> int \<Rightarrow> int \<Rightarrow> int list \<Rightarrow> addr \<Rightarrow> heap
             \<Rightarrow> int \<times> heap"
  pgeqpfmod :: "int \<Rightarrow> int \<Rightarrow> addr option \<Rightarrow> int \<Rightarrow> int \<Rightarrow> int list \<Rightarrow> int list \<Rightarrow> int list
                \<Rightarrow> int \<Rightarrow> real \<Rightarrow> real \<Rightarrow> heap \<Rightarrow> int list \<times> int list \<times> int \<times> heap"
  ptrsm :: "Side \<Rightarrow> UpLo \<Rightarrow> Trans \<Rightarrow> Diag \<Rightarrow> int \<Rightarrow> int \<Rightarrow> real
            \<Rightarrow> addr option \<Rightarrow> int \<Rightarrow> int \<Rightarrow> int list
            \<Rightarrow> addr option \<Rightarrow> int \<Rightarrow> int \<Rightarrow> int list \<Rightarrow> heap \<Rightarrow> heap"

text \<open>
  Modelled from the spec: the nine descriptor entries are the distribution kind
  sentinel, the context, the global row and column counts, the row and column block
  sizes, the grid row and column owning the first block, and the local leading
  dimension. \<open>descset\<close> stores its arguments in that layout.
\<close>

definition BLOCK_CYCLIC_2D :: int where
  "BLOCK_CYCLIC_2D = 1"

definition descset :: "int \<Rightarrow> int \<Rightarrow> int \<Rightarrow> int \<Rightarrow> int \<Rightarrow> int \<Rightarrow> int \<Rightarrow> int \<Rightarrow> int list" where
  "descset m n mb nb rsrc csrc ictxt mxllda =
     [BLOCK_CYCLIC_2D, ictxt, m, n, mb, nb, rsrc, csrc, mxllda]"

subsection \<open>The matrix object\<close>

text \<open>
  \<^verbatim>\<open>DistributedMatrixWrapper\<close> derives from \<^verbatim>\<open>DistributedMatrix\<close> and adds four private
  fields. The dynamic type of an object is the field \<open>wrapper\<close>: \<open>None\<close> for a
  \<^verbatim>\<open>DistributedMatrix\<close>, the four fields for a wrapper. Calls of the virtual members
  \<^verbatim>\<open>rows\<close>, \<^verbatim>\<open>cols\<close>, \<^verbatim>\<open>I\<close>, \<^verbatim>\<open>J\<close>, \<^verbatim>\<open>lranges\<close>, \<^verbatim>\<open>resize\<close> and \<^verbatim>\<open>hconcat\<close> dispatch on it.
\<close>

record wrapper_fields =
  w_rows :: int
  w_cols :: int
  w_i :: int
  w_j :: int

record DistributedMatrix =
  grid :: "BLACSGrid option"
  data :: "addr option"
  lrows :: int
  lcols :: int
  desc :: "int list"
  wrapper :: "wrapper_fields option"

definition default_MB :: int where
  "default_MB = 32"

definition default_NB :: int where
  "default_NB = 32"

definition active :: "DistributedMatrix \<Rightarrow> bool" where
  "active m = (case grid m of None \<Rightarrow> False | Some g \<Rightarrow> g_active g)"

definition ctxt :: "DistributedMatrix \<Rightarrow> int" where
  "ctxt m = (case grid m of None \<Rightarrow> - 1 | Some g \<Rightarrow> g_ctxt g)"

definition rows :: "DistributedMatrix \<Rightarrow> int" where
  "rows m = (case wrapper m of None \<Rightarrow> desc m ! 2 | Some w \<Rightarrow> w_rows w)"

definition cols :: "DistributedMatrix \<Rightarrow> int" where
  "cols m = (case wrapper m of None \<Rightarrow> desc m ! 3 | Some w \<Rightarrow> w_cols w)"

definition ld :: "DistributedMatrix \<Rightarrow> int" where
  "ld m = lrows m"

definition MB :: "DistributedMatrix \<Rightarrow> int" where
  "MB m = desc m ! 4"

definition NB :: "DistributedMatrix \<Rightarrow> int" where
  "NB m = desc m ! 5"

definition row_I :: "DistributedMatrix \<Rightarrow> int" where
  "row_I m = (case wrapper m of None \<Rightarrow> 1 | Some w \<Rightarrow> w_i w + 1)"

definition col_J :: "DistributedMatrix \<Rightarrow> int" where
  "col_J m = (case wrapper m of None \<Rightarrow> 1 | Some w \<Rightarrow> w_j w + 1)"

text \<open>The four grid accessors assert that the grid pointer is not null.\<close>

definition prow :: "DistributedMatrix \<Rightarrow> error + int" where
  "prow m = (case grid m of None \<Rightarrow> Inl AssertionFailure | Some g \<Rightarrow> Inr (g_prow g))"

definition pcol :: "DistributedMatrix \<Rightarrow> error + int" where
  "pcol m = (case grid m of None \<Rightarrow> Inl AssertionFailure | Some g \<Rightarrow> Inr (g_pcol g))"

definition nprows :: "DistributedMatrix \<Rightarrow> error + int" where
  "nprows m = (case grid m of None \<Rightarrow> Inl AssertionFailure | Some g \<Rightarrow> Inr (g_nprows g))"

definition npcols :: "DistributedMatrix \<Rightarrow> error + int" where
  "npcols m = (case grid m of None \<Rightarrow> Inl AssertionFailure | Some g \<Rightarrow> Inr (g_npcols g))"

definition rowl2g :: "DistributedMatrix \<Rightarrow> int \<Rightarrow> error + int" where
  "rowl2g m row =
     (case grid m of
        None \<Rightarrow> Inl AssertionFailure
      | Some g \<Rightarrow>
          bindE (indxl2g (add32 row 1) (MB m) (g_prow g) 0 (g_nprows g))
            (\<lambda>x. Inr (sub32 x (row_I m))))"

definition coll2g :: "DistributedMatrix \<Rightarrow> int \<Rightarrow> error + int" where
  "coll2g m col =
     (case grid m of
        None \<Rightarrow> Inl AssertionFailure
      | Some g \<Rightarrow>
          bindE (indxl2g (add32 col 1) (NB m) (g_pcol g) 0 (g_npcols g))
            (\<lambda>x. Inr (sub32 x (col_J m))))"

definition rowg2l :: "DistributedMatrix \<Rightarrow> int \<Rightarrow> error + int" where
  "rowg2l m row =
     (case grid m of
        None \<Rightarrow> Inl AssertionFailure
      | Some g \<Rightarrow>
          bindE (indxg2l (add32 row (row_I m)) (MB m) (g_prow g) 0 (g_nprows g))
            (\<lambda>x. Inr (sub32 x 1)))"

definition colg2l :: "DistributedMatrix \<Rightarrow> int \<Rightarrow> error + int" where
  "colg2l m col =
     (case grid m of
        None \<Rightarrow> Inl AssertionFailure
      | Some g \<Rightarrow>
          bindE (indxg2l (add32 col (col_J m)) (NB m) (g_pcol g) 0 (g_npcols g))
            (\<lambda>x. Inr (sub32 x 1)))"

definition rowg2p :: "DistributedMatrix \<Rightarrow> int \<Rightarrow> error + int" where
  "rowg2p m row =
     (case grid m of
        None \<Rightarrow> Inl AssertionFailure
      | Some g \<Rightarrow> indxg2p (add32 row (row_I m)) (MB m) (g_prow g) 0 (g_nprows g))"

definition colg2p :: "DistributedMatrix \<Rightarrow> int \<Rightarrow> error + int" where
  "colg2p m col =
     (case grid m of
        None \<Rightarrow> Inl AssertionFailure
      | Some g \<Rightarrow> indxg2p (add32 col (col_J m)) (NB m) (g_pcol g) 0 (g_npcols g))"

definition is_local :: "DistributedMatrix \<Rightarrow> int \<Rightarrow> int \<Rightarrow> error + bool" where
  "is_local m r c =
     (case grid m of
        None \<Rightarrow> Inl AssertionFailure
      | Some g \<Rightarrow>
          bindE (rowg2p m r) (\<lambda>pr. bindE (colg2p m c) (\<lambda>pc.
            Inr (pr = g_prow g \<and> pc = g_pcol g))))"

definition fixed :: "DistributedMatrix \<Rightarrow> bool" where
  "fixed m = (MB m = default_MB \<and> NB m = default_NB)"

text \<open>
  \<^verbatim>\<open>operator()(r, c)\<close> is \<^verbatim>\<open>data_[r + ld()*c]\<close>. The access fails on a null or freed
  buffer and outside the allocated cells.
\<close>

definition get_elem :: "DistributedMatrix \<Rightarrow> heap \<Rightarrow> int \<Rightarrow> int \<Rightarrow> error + real option" where
  "get_elem m h r c =
     (case data m of
        None \<Rightarrow> Inl NullPointer
      | Some a \<Rightarrow>
          (case buffer_at h a of
             None \<Rightarrow> Inl OutOfBounds
           | Some buf \<Rightarrow>
               (let k = r + ld m * c
                in if 0 \<le> k \<and> k < int (length buf) then Inr (buf ! nat k)
                   else Inl OutOfBounds)))"

definition set_elem :: "DistributedMatrix \<Rightarrow> int \<Rightarrow> int \<Rightarrow> real option \<Rightarrow> heap \<Rightarrow> error + heap" where
  "set_elem m r c v h =
     (case data m of
        None \<Rightarrow> Inl NullPointer
      | Some a \<Rightarrow>
          (case buffer_at h a of
             None \<Rightarrow> Inl OutOfBounds
           | Some buf \<Rightarrow>
               (let k = r + ld m * c
                in if 0 \<le> k \<and> k < int (length buf)
                   then Inr (h[a := Some (buf[nat k := v])])
                   else Inl OutOfBounds)))"

text \<open>Access by global position (lines 170--178): the reader asserts that the entry is local.\<close>

definition DistributedMatrix_global ::
  "DistributedMatrix \<Rightarrow> heap \<Rightarrow> int \<Rightarrow> int \<Rightarrow> error + real option" where
  "DistributedMatrix_global this h r c =
     bindE (is_local this r c) (\<lambda>loc.
       if \<not> loc then Inl AssertionFailure
       else bindE (rowg2l this r) (\<lambda>lr. bindE (colg2l this c) (\<lambda>lc. get_elem this h lr lc)))"

definition DistributedMatrix_global_set ::
  "DistributedMatrix \<Rightarrow> int \<Rightarrow> int \<Rightarrow> real \<Rightarrow> heap \<Rightarrow> error + heap" where
  "DistributedMatrix_global_set this r c v h =
     (if \<not> active this then Inr h
      else bindE (is_local this r c) (\<lambda>loc.
             if loc
             then bindE (rowg2l this r) (\<lambda>lr. bindE (colg2l this c) (\<lambda>lc.
                    set_elem this lr lc (Some v) h))
             else Inr h))"

text \<open>The variants for the default block size (lines 144--176) assert \<^verbatim>\<open>grid() && fixed()\<close>.\<close>

definition is_local_fixed :: "DistributedMatrix \<Rightarrow> int \<Rightarrow> int \<Rightarrow> error + bool" where
  "is_local_fixed m r c =
     (case grid m of
        None \<Rightarrow> Inl AssertionFailure
      | Some g \<Rightarrow>
          if \<not> fixed m then Inl AssertionFailure
          else
            bindE (indxg2p (add32 r (row_I m)) default_MB (g_prow g) 0 (g_nprows g)) (\<lambda>pr.
            bindE (indxg2p (add32 c (col_J m)) default_NB (g_pcol g) 0 (g_npcols g)) (\<lambda>pc.
              Inr (pr = g_prow g \<and> pc = g_pcol g))))"

definition DistributedMatrix_global_fixed ::
  "DistributedMatrix \<Rightarrow> heap \<Rightarrow> int \<Rightarrow> int \<Rightarrow> error + real option" where
  "DistributedMatrix_global_fixed this h r c =
     bindE (is_local this r c) (\<lambda>loc.
       if \<not> loc then Inl AssertionFailure
       else if \<not> fixed this then Inl AssertionFailure
       else
         (case grid this of
            None \<Rightarrow> Inl AssertionFailure
          | Some g \<Rightarrow>
              bindE (indxg2l (add32 r (row_I this)) default_MB (g_prow g) 0 (g_nprows g))
                (\<lambda>lr.
              bindE (indxg2l (add32 c (col_J this)) default_NB (g_pcol g) 0 (g_npcols g))
                (\<lambda>lc.
                get_elem this h (sub32 lr 1) (sub32 lc 1)))))"

text \<open>
  The virtual \<^verbatim>\<open>lranges\<close>: the whole local rectangle for a matrix (lines 721--726), the
  window computed by \<open>infog2l\<close> for a wrapper (lines 558--568).
\<close>

definition lranges :: "kernels \<Rightarrow> DistributedMatrix \<Rightarrow> error + (int \<times> int \<times> int \<times> int)" where
  "lranges K m =
     (case wrapper m of
        None \<Rightarrow> Inr (0, lrows m, 0, lcols m)
      | Some w \<Rightarrow>
          bindE (nprows m) (\<lambda>np. bindE (npcols m) (\<lambda>nq.
          bindE (prow m) (\<lambda>pr. bindE (pcol m) (\<lambda>pc.
            (let (rlo, clo) = infog2l K (row_I m) (col_J m) (desc m) np nq pr pc;
                 (rhi, chi) = infog2l K (row_I m + rows m) (col_J m + cols m) (desc m) np nq pr pc
             in Inr (rlo - 1, rhi - 1, clo - 1, chi - 1)))))))"

text \<open>The cells visited by the nested loops \<^verbatim>\<open>for c in [clo,chi) for r in [rlo,rhi)\<close>.\<close>

definition loop_cells :: "int \<Rightarrow> int \<Rightarrow> int \<Rightarrow> int \<Rightarrow> (int \<times> int) list" where
  "loop_cells rlo rhi clo chi =
     concat (map (\<lambda>c. map (\<lambda>r. (r, c)) [rlo..rhi - 1]) [clo..chi - 1])"

subsection \<open>Construction, destruction, move (lines 570--733)\<close>

text \<open>
  Construction by shape (lines 652--673). The members other than the grid pointer are
  not yet set when \<^verbatim>\<open>active()\<close> is asked.
\<close>

definition DistributedMatrix_ctor ::
  "kernels \<Rightarrow> BLACSGrid option \<Rightarrow> int \<Rightarrow> int \<Rightarrow> int \<Rightarrow> int \<Rightarrow> heap
     \<Rightarrow> error + (DistributedMatrix \<times> heap)" where
  "DistributedMatrix_ctor K g M N MB0 NB0 h =
     (if \<not> (M \<ge> 0 \<and> N \<ge> 0 \<and> MB0 \<ge> 0 \<and> NB0 \<ge> 0) then Inl AssertionFailure
      else
        (let MB1 = max 1 MB0; NB1 = max 1 NB0;
             this = \<lparr>grid = g, data = None, lrows = 0, lcols = 0, desc = replicate 9 0,
                     wrapper = None\<rparr>
         in if \<not> active this
            then Inr (this\<lparr>lrows := 0, lcols := 0, data := None,
                           desc := descset M N MB1 NB1 0 0 (- 1) (max 0 1)\<rparr>, h)
            else
              bindE (prow this) (\<lambda>pr. bindE (nprows this) (\<lambda>np.
              bindE (pcol this) (\<lambda>pc. bindE (npcols this) (\<lambda>nq.
                (let lr = numroc K M MB1 pr 0 np; lc = numroc K N NB1 pc 0 nq
                 in bindE (new_array (mul32 lr lc) h) (\<lambda>(a, h').
                      if descinit_info K M N MB1 NB1 0 0 (ctxt this) (max lr 1) \<noteq> 0
                      then Inl Aborted
                      else Inr (this\<lparr>lrows := lr, lcols := lc, data := Some a,
                                     desc := descset M N MB1 NB1 0 0 (ctxt this) (max lr 1)\<rparr>,
                                h')))))))))"

definition DistributedMatrix_default_ctor ::
  "kernels \<Rightarrow> heap \<Rightarrow> error + (DistributedMatrix \<times> heap)" where
  "DistributedMatrix_default_ctor K h = DistributedMatrix_ctor K None 0 0 default_MB default_NB h"

text \<open>Construction from a grid and a nine-entry descriptor (lines 675--689).\<close>

definition DistributedMatrix_ctor_desc ::
  "kernels \<Rightarrow> BLACSGrid option \<Rightarrow> int list \<Rightarrow> heap \<Rightarrow> error + (DistributedMatrix \<times> heap)" where
  "DistributedMatrix_ctor_desc K g d h =
     (let this = \<lparr>grid = g, data = None, lrows = 0, lcols = 0, desc = take 9 d,
                  wrapper = None\<rparr>
      in if active this
         then Inr (this\<lparr>lrows := 0, lcols := 0, data := None\<rparr>, h)
         else
           bindE (prow this) (\<lambda>pr. bindE (nprows this) (\<lambda>np.
           bindE (pcol this) (\<lambda>pc. bindE (npcols this) (\<lambda>nq.
             (let lr = numroc K (desc this ! 2) (desc this ! 4) pr (desc this ! 6) np;
                  lc = numroc K (desc this ! 3) (desc this ! 5) pc (desc this ! 7) nq
              in if lr \<noteq> desc this ! 8 then Inl AssertionFailure
                 else if lr \<noteq> 0 \<and> lc \<noteq> 0
                 then bindE (new_array (mul32 lr lc) h) (\<lambda>(a, h').
                        Inr (this\<lparr>lrows := lr, lcols := lc, data := Some a\<rparr>, h'))
                 else Inr (this\<lparr>lrows := lr, lcols := lc, data := None\<rparr>, h)))))))"

text \<open>
  Move construction (lines 638--644): the new object and the source after the move. The
  heap is not touched.
\<close>

definition DistributedMatrix_move_ctor ::
  "DistributedMatrix \<Rightarrow> DistributedMatrix \<times> DistributedMatrix" where
  "DistributedMatrix_move_ctor m =
     (\<lparr>grid = grid m, data = data m, lrows = lrows m, lcols = lcols m,
       desc = take 9 (desc m), wrapper = None\<rparr>,
      m\<lparr>data := None\<rparr>)"

text \<open>
  Move assignment (lines 710--719) to \<open>this\<close> from a different object \<open>m\<close>: the
  destination, the source after the move, and the heap.
\<close>

definition DistributedMatrix_move_assign ::
  "DistributedMatrix \<Rightarrow> DistributedMatrix \<Rightarrow> heap
     \<Rightarrow> error + (DistributedMatrix \<times> DistributedMatrix \<times> heap)" where
  "DistributedMatrix_move_assign this m h =
     (let this1 = this\<lparr>grid := grid m, lrows := lrows m, lcols := lcols m,
                       desc := take 9 (desc m)\<rparr>
      in bindE (delete_array (data this1) h) (\<lambda>h'.
           Inr (this1\<lparr>data := data m\<rparr>, m\<lparr>data := None\<rparr>, h')))"

definition DistributedMatrix_clear ::
  "DistributedMatrix \<Rightarrow> heap \<Rightarrow> error + (DistributedMatrix \<times> heap)" where
  "DistributedMatrix_clear this h =
     bindE (delete_array (data this) h) (\<lambda>h'.
       (let this1 = this\<lparr>data := None, lrows := 0, lcols := 0\<rparr>
        in Inr (this1\<lparr>desc := descset 0 0 (MB this1) (NB this1) 0 0 (ctxt this1) 1\<rparr>, h')))"

definition DistributedMatrix_dtor :: "DistributedMatrix \<Rightarrow> heap \<Rightarrow> error + heap" where
  "DistributedMatrix_dtor this h =
     bindE (DistributedMatrix_clear this h) (\<lambda>(this', h'). Inr h')"

subsection \<open>The wrapper (lines 302--353, 439--456)\<close>

text \<open>
  The wrapper over the window of \<open>m\<close> rows and \<open>n\<close> columns of \<open>A\<close> at \<open>(i, j)\<close>.
  Its base part is default-constructed first, which allocates nothing.
\<close>

definition DistributedMatrixWrapper_ctor ::
  "int \<Rightarrow> int \<Rightarrow> DistributedMatrix \<Rightarrow> int \<Rightarrow> int \<Rightarrow> error + DistributedMatrix" where
  "DistributedMatrixWrapper_ctor m n A i j =
     (if \<not> (\<not> active A \<or> m + i \<le> rows A) then Inl AssertionFailure
      else if \<not> (\<not> active A \<or> n + j \<le> cols A) then Inl AssertionFailure
      else if \<not> (m \<ge> 0 \<and> n \<ge> 0 \<and> i \<ge> 0 \<and> j \<ge> 0) then Inl AssertionFailure
      else Inr \<lparr>grid = grid A, data = data A, lrows = lrows A, lcols = lcols A,
                desc = take 9 (desc A),
                wrapper = Some \<lparr>w_rows = m, w_cols = n, w_i = i, w_j = j\<rparr>\<rparr>)"

definition DistributedMatrixWrapper_default_ctor ::
  "kernels \<Rightarrow> heap \<Rightarrow> error + (DistributedMatrix \<times> heap)" where
  "DistributedMatrixWrapper_default_ctor K h =
     bindE (DistributedMatrix_default_ctor K h) (\<lambda>(this, h').
       Inr (this\<lparr>wrapper := Some \<lparr>w_rows = 0, w_cols = 0, w_i = 0, w_j = 0\<rparr>\<rparr>, h'))"

text \<open>
  \<^verbatim>\<open>void clear() { this->data_ = nullptr; DistributedMatrix<scalar_t>::clear(); }\<close> and
  \<^verbatim>\<open>virtual ~DistributedMatrixWrapper() { this->data_ = nullptr; }\<close>, after which the
  destructor of the base class runs.
\<close>

definition DistributedMatrixWrapper_clear ::
  "DistributedMatrix \<Rightarrow> heap \<Rightarrow> error + (DistributedMatrix \<times> heap)" where
  "DistributedMatrixWrapper_clear this h = DistributedMatrix_clear (this\<lparr>data := None\<rparr>) h"

definition DistributedMatrixWrapper_dtor :: "DistributedMatrix \<Rightarrow> heap \<Rightarrow> error + heap" where
  "DistributedMatrixWrapper_dtor this h = DistributedMatrix_dtor (this\<lparr>data := None\<rparr>) h"

text \<open>\<^verbatim>\<open>void resize(std::size_t m, std::size_t n) { assert(1); }\<close>, and the same body for
  \<^verbatim>\<open>hconcat\<close>: the assertion always holds.\<close>

definition DistributedMatrixWrapper_resize ::
  "int \<Rightarrow> int \<Rightarrow> DistributedMatrix \<Rightarrow> heap \<Rightarrow> error + (DistributedMatrix \<times> heap)" where
  "DistributedMatrixWrapper_resize m n this h =
     (if \<not> True then Inl AssertionFailure else Inr (this, h))"

definition DistributedMatrixWrapper_hconcat ::
  "DistributedMatrix \<Rightarrow> DistributedMatrix \<Rightarrow> heap \<Rightarrow> error + (DistributedMatrix \<times> heap)" where
  "DistributedMatrixWrapper_hconcat b this h =
     (if \<not> True then Inl AssertionFailure else Inr (this, h))"

subsection \<open>Redistribution, resize and concatenation (lines 284--295, 735--752)\<close>

definition copy ::
  "kernels \<Rightarrow> int \<Rightarrow> int \<Rightarrow> DistributedMatrix \<Rightarrow> int \<Rightarrow> int \<Rightarrow> DistributedMatrix \<Rightarrow> int \<Rightarrow> int
     \<Rightarrow> int \<Rightarrow> heap \<Rightarrow> error + heap" where
  "copy K m n a ia ja b ib jb context_all h =
     (if m = 0 \<or> n = 0 then Inr h
      else if \<not> (\<not> active a \<or> (m + ia \<le> rows a \<and> n + ja \<le> cols a)) then Inl AssertionFailure
      else if \<not> (\<not> active b \<or> (m + ib \<le> rows b \<and> n + jb \<le> cols b)) then Inl AssertionFailure
      else Inr (pgemr2d K m n (data a) (row_I a + ia) (col_J a + ja) (desc a)
                  (data b) (row_I b + ib) (col_J b + jb) (desc b) context_all h))"

definition DistributedMatrix_resize ::
  "kernels \<Rightarrow> int \<Rightarrow> int \<Rightarrow> DistributedMatrix \<Rightarrow> heap \<Rightarrow> error + (DistributedMatrix \<times> heap)" where
  "DistributedMatrix_resize K m n this h =
     bindE (DistributedMatrix_ctor K (grid this) m n (MB this) (NB this) h) (\<lambda>(tmp, h1).
     bindE (fold_res
              (\<lambda>(r, c) hh. bindE (get_elem this hh r c) (\<lambda>v. set_elem tmp r c v hh))
              (loop_cells 0 (min (lrows this) (lrows tmp)) 0 (min (lcols this) (lcols tmp)))
              h1) (\<lambda>h2.
     bindE (DistributedMatrix_move_assign this tmp h2) (\<lambda>(this', tmp', h3).
     bindE (DistributedMatrix_dtor tmp' h3) (\<lambda>h4. Inr (this', h4)))))"

text \<open>The virtual call \<^verbatim>\<open>resize(m, n)\<close>.\<close>

definition resize ::
  "kernels \<Rightarrow> int \<Rightarrow> int \<Rightarrow> DistributedMatrix \<Rightarrow> heap \<Rightarrow> error + (DistributedMatrix \<times> heap)" where
  "resize K m n this h =
     (case wrapper this of
        None \<Rightarrow> DistributedMatrix_resize K m n this h
      | Some w \<Rightarrow> DistributedMatrixWrapper_resize m n this h)"

definition DistributedMatrix_hconcat ::
  "kernels \<Rightarrow> DistributedMatrix \<Rightarrow> DistributedMatrix \<Rightarrow> heap
     \<Rightarrow> error + (DistributedMatrix \<times> heap)" where
  "DistributedMatrix_hconcat K b this h =
     (if rows this \<noteq> rows b then Inl AssertionFailure
      else if grid this \<noteq> grid b then Inl AssertionFailure
      else
        (let my_cols = cols this
         in bindE (resize K (rows this) (my_cols + cols b) this h) (\<lambda>(this1, h1).
              if \<not> active this1 then Inr (this1, h1)
              else
                (case grid this1 of
                   None \<Rightarrow> Inl NullPointer
                 | Some g \<Rightarrow>
                     bindE (copy K (rows this1) (cols b) b 0 0 this1 0 my_cols (g_ctxt g) h1)
                       (\<lambda>h2. Inr (this1, h2))))))"

text \<open>The virtual call \<^verbatim>\<open>hconcat(b)\<close>.\<close>

definition hconcat ::
  "kernels \<Rightarrow> DistributedMatrix \<Rightarrow> DistributedMatrix \<Rightarrow> heap
     \<Rightarrow> error + (DistributedMatrix \<times> heap)" where
  "hconcat K b this h =
     (case wrapper this of
        None \<Rightarrow> DistributedMatrix_hconcat K b this h
      | Some w \<Rightarrow> DistributedMatrixWrapper_hconcat b this h)"

subsection \<open>Filling operations (lines 754--817)\<close>

text \<open>
  None of these assigns a member of the object: the result is the heap. The statistics
  macros \<^verbatim>\<open>TIMER_TIME\<close> and \<^verbatim>\<open>STRUMPACK_FLOPS\<close> of \<^verbatim>\<open>random\<close> stand after the test of
  \<^verbatim>\<open>active()\<close> and touch no matrix; they are left out.
\<close>

definition DistributedMatrix_zero :: "kernels \<Rightarrow> DistributedMatrix \<Rightarrow> heap \<Rightarrow> error + heap" where
  "DistributedMatrix_zero K this h =
     (if \<not> active this then Inr h
      else bindE (lranges K this) (\<lambda>(rlo, rhi, clo, chi).
             fold_res (\<lambda>(r, c) hh. set_elem this r c (Some 0) hh)
               (loop_cells rlo rhi clo chi) h))"

definition DistributedMatrix_fill ::
  "kernels \<Rightarrow> real \<Rightarrow> DistributedMatrix \<Rightarrow> heap \<Rightarrow> error + heap" where
  "DistributedMatrix_fill K a this h =
     (if \<not> active this then Inr h
      else bindE (lranges K this) (\<lambda>(rlo, rhi, clo, chi).
             fold_res (\<lambda>(r, c) hh. set_elem this r c (Some a) hh)
               (loop_cells rlo rhi clo chi) h))"

definition DistributedMatrix_random_gen ::
  "kernels \<Rightarrow> ('g \<Rightarrow> real \<times> 'g) \<Rightarrow> 'g \<Rightarrow> DistributedMatrix \<Rightarrow> heap \<Rightarrow> error + ('g \<times> heap)" where
  "DistributedMatrix_random_gen K get rgen this h =
     (if \<not> active this then Inr (rgen, h)
      else bindE (lranges K this) (\<lambda>(rlo, rhi, clo, chi).
             fold_res
               (\<lambda>(r, c) (g, hh).
                  (let (v, g') = get g
                   in bindE (set_elem this r c (Some v) hh) (\<lambda>hh'. Inr (g', hh'))))
               (loop_cells rlo rhi clo chi) (rgen, h)))"

definition DistributedMatrix_random :: "kernels \<Rightarrow> DistributedMatrix \<Rightarrow> heap \<Rightarrow> error + heap" where
  "DistributedMatrix_random K this h =
     (if \<not> active this then Inr h
      else
        bindE (prow this) (\<lambda>pr. bindE (pcol this) (\<lambda>pc.
        bindE (lranges K this) (\<lambda>(rlo, rhi, clo, chi).
        bindE (fold_res
                 (\<lambda>(r, c) (k, hh).
                    bindE (set_elem this r c (Some (default_rgen K pr pc k)) hh)
                      (\<lambda>hh'. Inr (Suc k, hh')))
                 (loop_cells rlo rhi clo chi) (0, h))
          (\<lambda>(k, h'). Inr h')))))"

definition DistributedMatrix_eye :: "kernels \<Rightarrow> DistributedMatrix \<Rightarrow> heap \<Rightarrow> error + heap" where
  "DistributedMatrix_eye K this h =
     (if \<not> active this then Inr h
      else bindE (lranges K this) (\<lambda>(rlo, rhi, clo, chi).
             fold_res
               (\<lambda>(r, c) hh.
                  bindE (rowl2g this r) (\<lambda>gr. bindE (coll2g this c) (\<lambda>gc.
                    set_elem this r c (Some (if gr = gc then 1 else 0)) hh)))
               (loop_cells rlo rhi clo chi) h))"

text \<open>\<^verbatim>\<open>shift\<close> (lines 809--817) starts with \<^verbatim>\<open>lranges\<close>; it does not ask \<^verbatim>\<open>active()\<close>.\<close>

definition DistributedMatrix_shift ::
  "kernels \<Rightarrow> real \<Rightarrow> DistributedMatrix \<Rightarrow> heap \<Rightarrow> error + heap" where
  "DistributedMatrix_shift K sigma this h =
     bindE (lranges K this) (\<lambda>(rlo, rhi, clo, chi).
       fold_res
         (\<lambda>(r, c) hh.
            bindE (rowl2g this r) (\<lambda>gr. bindE (coll2g this c) (\<lambda>gc.
              if gr = gc
              then bindE (get_elem this hh r c) (\<lambda>v.
                     set_elem this r c (map_option (\<lambda>x. x + sigma) v) hh)
              else Inr hh)))
         (loop_cells rlo rhi clo chi) h)"

subsection \<open>Norms (lines 1056--1093)\<close>

definition DistributedMatrix_normF ::
  "kernels \<Rightarrow> DistributedMatrix \<Rightarrow> heap \<Rightarrow> error + (real \<times> heap)" where
  "DistributedMatrix_normF K this h =
     (if \<not> active this then Inr (- 1, h)
      else Inr (plange K (CHR ''F'') (rows this) (cols this) (data this)
                  (row_I this) (col_J this) (desc this) h, h))"

definition DistributedMatrix_norm ::
  "kernels \<Rightarrow> DistributedMatrix \<Rightarrow> heap \<Rightarrow> error + (real \<times> heap)" where
  "DistributedMatrix_norm K this h = DistributedMatrix_normF K this h"

definition DistributedMatrix_norm1 ::
  "kernels \<Rightarrow> DistributedMatrix \<Rightarrow> heap \<Rightarrow> error + (real \<times> heap)" where
  "DistributedMatrix_norm1 K this h =
     (if \<not> active this then Inr (- 1, h)
      else
        bindE (pcol this) (\<lambda>pc. bindE (npcols this) (\<lambda>nq.
        bindE (indxg2p (col_J this) (NB this) pc 0 nq) (\<lambda>IACOL.
        bindE (mod32 (sub32 (col_J this) 1) (NB this)) (\<lambda>off.
          (let Nq0 = numroc K (add32 (cols this) off) (NB this) pc IACOL nq
           in bindE (new_array Nq0 h) (\<lambda>(work, h1).
                (let nrm = plange K (CHR ''1'') (rows this) (cols this) (data this)
                             (row_I this) (col_J this) (desc this) h1
                 in bindE (delete_array (Some work) h1) (\<lambda>h2. Inr (nrm, h2))))))))))"

definition DistributedMatrix_normI ::
  "kernels \<Rightarrow> DistributedMatrix \<Rightarrow> heap \<Rightarrow> error + (real \<times> heap)" where
  "DistributedMatrix_normI K this h =
     (if \<not> active this then Inr (- 1, h)
      else
        bindE (prow this) (\<lambda>pr. bindE (nprows this) (\<lambda>np.
        bindE (indxg2p (row_I this) (MB this) pr 0 np) (\<lambda>IAROW.
        bindE (mod32 (sub32 (row_I this) 1) (MB this)) (\<lambda>off.
          (let Mp0 = numroc K (add32 (rows this) off) (MB this) pr IAROW np
           in bindE (new_array Mp0 h) (\<lambda>(work, h1).
                (let nrm = plange K (CHR ''I'') (rows this) (cols this) (data this)
                             (row_I this) (col_J this) (desc this) h1
                 in bindE (delete_array (Some work) h1) (\<lambda>h2. Inr (nrm, h2))))))))))"

subsection \<open>Extraction of rows (lines 871--939)\<close>

text \<open>
  \<^verbatim>\<open>rsizes[owner] += lcols_\<close> and \<^verbatim>\<open>sbuf[dest].push_back(v)\<close> on vectors of
  \<^verbatim>\<open>nprows()\<close> entries; an index outside the vector is a failure.
\<close>

definition vec_add :: "int list \<Rightarrow> int \<Rightarrow> int \<Rightarrow> error + int list" where
  "vec_add v i d =
     (if 0 \<le> i \<and> i < int (length v) then Inr (v[nat i := v ! nat i + d])
      else Inl OutOfBounds)"

definition push_back_at :: "'a list list \<Rightarrow> int \<Rightarrow> 'a \<Rightarrow> error + 'a list list" where
  "push_back_at bufs i x =
     (if 0 \<le> i \<and> i < int (length bufs) then Inr (bufs[nat i := bufs ! nat i @ [x]])
      else Inl OutOfBounds)"

text \<open>
  The first loop, for the list position \<open>r\<close> holding the global row \<open>gr\<close>: count what
  will be received and sent, and copy a row that stays on this worker into \<open>tmp\<close>.
\<close>

definition extract_rows_count ::
  "DistributedMatrix \<Rightarrow> DistributedMatrix \<Rightarrow> int \<Rightarrow> nat \<times> nat
     \<Rightarrow> int list \<times> int list \<times> heap \<Rightarrow> error + (int list \<times> int list \<times> heap)" where
  "extract_rows_count this tmp pr = (\<lambda>(r, gr) (rsizes, ssizes, h).
     bindE (rowg2p this (int gr)) (\<lambda>owner.
       if owner \<noteq> pr
       then bindE (vec_add rsizes owner (lcols this)) (\<lambda>rs. Inr (rs, ssizes, h))
       else
         bindE (rowg2p this (int r)) (\<lambda>dest.
           if dest = pr
           then
             bindE (rowg2l tmp (int r)) (\<lambda>tmpr. bindE (rowg2l this (int gr)) (\<lambda>lr.
             bindE (fold_res
                      (\<lambda>c hh. bindE (get_elem this hh lr c) (\<lambda>v. set_elem tmp tmpr c v hh))
                      [0..lcols this - 1] h)
               (\<lambda>h'. Inr (rsizes, ssizes, h'))))
           else bindE (vec_add ssizes dest (lcols this)) (\<lambda>ss. Inr (rsizes, ss, h)))))"

text \<open>The second loop: append the rows owned here and placed elsewhere to \<open>sbuf[dest]\<close>.\<close>

definition extract_rows_pack ::
  "DistributedMatrix \<Rightarrow> heap \<Rightarrow> int \<Rightarrow> nat \<times> nat
     \<Rightarrow> real option list list \<Rightarrow> error + real option list list" where
  "extract_rows_pack this h pr = (\<lambda>(r, gr) sbuf.
     bindE (rowg2p this (int gr)) (\<lambda>owner.
       if owner = pr
       then
         bindE (rowg2l this (int gr)) (\<lambda>lr. bindE (rowg2p this (int r)) (\<lambda>dest.
           if dest \<noteq> pr
           then fold_res
                  (\<lambda>c sb. bindE (get_elem this h lr c) (\<lambda>v. push_back_at sb dest v))
                  [0..lcols this - 1] sbuf
           else Inr sbuf))
       else Inr sbuf))"

text \<open>
  The part of \<^verbatim>\<open>extract_rows\<close> before the exchange: the new matrix \<open>tmp\<close>, and on an
  active worker the receive counts and the send buffers.
\<close>

definition extract_rows_send ::
  "kernels \<Rightarrow> DistributedMatrix \<Rightarrow> nat list \<Rightarrow> heap
     \<Rightarrow> error + (DistributedMatrix \<times> (int list \<times> real option list list) option \<times> heap)" where
  "extract_rows_send K this Ir h =
     bindE (DistributedMatrix_ctor K (grid this) (int (length Ir)) (cols this)
              default_MB default_NB h) (\<lambda>(tmp, h1).
       if \<not> active this then Inr (tmp, None, h1)
       else
         bindE (nprows this) (\<lambda>np. bindE (prow this) (\<lambda>pr.
         bindE (fold_res (extract_rows_count this tmp pr) (enumerate 0 Ir)
                  (replicate (nat np) 0, replicate (nat np) 0, h1)) (\<lambda>(rsizes, ssizes, h2).
         bindE (fold_res (extract_rows_pack this h2 pr) (enumerate 0 Ir)
                  (replicate (nat np) [])) (\<lambda>sbuf.
           Inr (tmp, Some (rsizes, sbuf), h2))))))"

text \<open>
  Modelled from the spec: the message-passing service is not among the sources. A
  receive posted for \<open>n\<close> values takes a message of at most \<open>n\<close> values into the front
  of the receive buffer, whose cells \<^verbatim>\<open>resize\<close> has set to 0; a longer message is the
  fatal size mismatch.
\<close>

definition irecv :: "int \<Rightarrow> real option list \<Rightarrow> error + real option list" where
  "irecv n msg =
     (if int (length msg) > n then Inl Aborted
      else Inr (msg @ replicate (nat n - length msg) (Some 0)))"

text \<open>
  The third loop reads \<^verbatim>\<open>lcols_\<close> values at \<^verbatim>\<open>prbuf[owner]++\<close> into row \<open>tmpr\<close> of
  \<open>tmp\<close>; \<open>rbuf\<close> holds what is left to read of each receive buffer.
\<close>

definition extract_rows_unpack ::
  "DistributedMatrix \<Rightarrow> DistributedMatrix \<Rightarrow> int \<Rightarrow> nat \<times> nat
     \<Rightarrow> real option list list \<times> heap \<Rightarrow> error + (real option list list \<times> heap)" where
  "extract_rows_unpack this tmp pr = (\<lambda>(r, gr) (rbuf, h).
     bindE (rowg2p this (int gr)) (\<lambda>owner.
       if owner = pr then Inr (rbuf, h)
       else
         bindE (rowg2p this (int r)) (\<lambda>dest.
           if dest \<noteq> pr then Inr (rbuf, h)
           else
             bindE (rowg2l tmp (int r)) (\<lambda>tmpr.
               fold_res
                 (\<lambda>c (rb, hh).
                    if \<not> (0 \<le> owner \<and> owner < int (length rb)) then Inl OutOfBounds
                    else
                      (case rb ! nat owner of
                         [] \<Rightarrow> Inl OutOfBounds
                       | v # rest \<Rightarrow>
                           bindE (set_elem tmp tmpr c v hh)
                             (\<lambda>hh'. Inr (rb[nat owner := rest], hh'))))
                 [0..lcols this - 1] (rbuf, h)))))"

text \<open>
  The part after the exchange, given the message that arrived from each grid row.
\<close>

definition extract_rows_recv ::
  "DistributedMatrix \<Rightarrow> DistributedMatrix \<Rightarrow> nat list \<Rightarrow> int list \<Rightarrow> real option list list
     \<Rightarrow> heap \<Rightarrow> error + heap" where
  "extract_rows_recv this tmp Ir rsizes msgs h =
     bindE (nprows this) (\<lambda>np. bindE (prow this) (\<lambda>pr.
     bindE (fold_res
              (\<lambda>p rb. if p = pr then Inr (rb @ [replicate (nat (rsizes ! nat p)) (Some 0)])
                       else bindE (irecv (rsizes ! nat p) (msgs ! nat p))
                              (\<lambda>b. Inr (rb @ [b])))
              [0..np - 1] []) (\<lambda>rbuf.
     bindE (fold_res (extract_rows_unpack this tmp pr) (enumerate 0 Ir) (rbuf, h))
       (\<lambda>(rb, h'). Inr h'))))"

text \<open>
  \<^verbatim>\<open>extract_rows\<close> on the workers of one grid column, each with its matrix and its own
  heap, listed by grid row: every worker runs up to the exchange, worker \<open>p\<close> receives
  from \<open>q\<close> what \<open>q\<close> packed for \<open>p\<close>, and every worker finishes. The result is the
  new matrix and the heap of each worker.
\<close>

fun map_res :: "('b \<Rightarrow> error + 'c) \<Rightarrow> 'b list \<Rightarrow> error + 'c list" where
  "map_res f [] = Inr []"
| "map_res f (x # xs) =
     (case f x of
        Inl e \<Rightarrow> Inl e
      | Inr y \<Rightarrow> (case map_res f xs of Inl e \<Rightarrow> Inl e | Inr ys \<Rightarrow> Inr (y # ys)))"

definition extract_rows_column ::
  "kernels \<Rightarrow> (DistributedMatrix \<times> heap) list \<Rightarrow> nat list
     \<Rightarrow> error + (DistributedMatrix \<times> heap) list" where
  "extract_rows_column K workers Ir =
     bindE (map_res (\<lambda>(this, h). extract_rows_send K this Ir h) workers) (\<lambda>sent.
       map_res
         (\<lambda>(p, (this, h0), (tmp, st, h1)).
            (case st of
               None \<Rightarrow> Inr (tmp, h1)
             | Some (rsizes, sbuf) \<Rightarrow>
                 bindE (extract_rows_recv this tmp Ir rsizes
                          (map (\<lambda>(tmpq, stq, hq).
                                  (case stq of None \<Rightarrow> [] | Some (rsq, sbq) \<Rightarrow> sbq ! p)) sent)
                          h1)
                   (\<lambda>h2. Inr (tmp, h2))))
         (zip [0..<length workers] (zip workers sent)))"

subsection \<open>Extraction of columns (lines 942--1010)\<close>

text \<open>The three loops and the exchange, with rows and columns in each other's place.\<close>

definition extract_cols_count ::
  "DistributedMatrix \<Rightarrow> DistributedMatrix \<Rightarrow> int \<Rightarrow> nat \<times> nat
     \<Rightarrow> int list \<times> int list \<times> heap \<Rightarrow> error + (int list \<times> int list \<times> heap)" where
  "extract_cols_count this tmp pc = (\<lambda>(c, gc) (rsizes, ssizes, h).
     bindE (colg2p this (int gc)) (\<lambda>owner.
       if owner \<noteq> pc
       then bindE (vec_add rsizes owner (lrows this)) (\<lambda>rs. Inr (rs, ssizes, h))
       else
         bindE (colg2l this (int gc)) (\<lambda>lc. bindE (colg2p this (int c)) (\<lambda>dest.
           if dest = pc
           then
             bindE (colg2l tmp (int c)) (\<lambda>tmpc.
             bindE (fold_res
                      (\<lambda>r hh. bindE (get_elem this hh r lc) (\<lambda>v. set_elem tmp r tmpc v hh))
                      [0..lrows this - 1] h)
               (\<lambda>h'. Inr (rsizes, ssizes, h')))
           else bindE (vec_add ssizes dest (lrows this)) (\<lambda>ss. Inr (rsizes, ss, h))))))"

definition extract_cols_pack ::
  "DistributedMatrix \<Rightarrow> heap \<Rightarrow> int \<Rightarrow> nat \<times> nat
     \<Rightarrow> real option list list \<Rightarrow> error + real option list list" where
  "extract_cols_pack this h pc = (\<lambda>(c, gc) sbuf.
     bindE (colg2p this (int gc)) (\<lambda>owner.
       if owner = pc
       then
         bindE (colg2p this (int c)) (\<lambda>dest.
           if dest \<noteq> pc
           then bindE (colg2l this (int gc)) (\<lambda>lc.
                  fold_res
                    (\<lambda>r sb. bindE (get_elem this h r lc) (\<lambda>v. push_back_at sb dest v))
                    [0..lrows this - 1] sbuf)
           else Inr sbuf)
       else Inr sbuf))"

definition extract_cols_send ::
  "kernels \<Rightarrow> DistributedMatrix \<Rightarrow> nat list \<Rightarrow> heap
     \<Rightarrow> error + (DistributedMatrix \<times> (int list \<times> real option list list) option \<times> heap)" where
  "extract_cols_send K this Jc h =
     bindE (DistributedMatrix_ctor K (grid this) (rows this) (int (length Jc))
              default_MB default_NB h) (\<lambda>(tmp, h1).
       if \<not> active this then Inr (tmp, None, h1)
       else if \<not> (row_I this = 1 \<and> col_J this = 1) then Inl AssertionFailure
       else
         bindE (npcols this) (\<lambda>nq. bindE (pcol this) (\<lambda>pc.
         bindE (fold_res (extract_cols_count this tmp pc) (enumerate 0 Jc)
                  (replicate (nat nq) 0, replicate (nat nq) 0, h1)) (\<lambda>(rsizes, ssizes, h2).
         bindE (fold_res (extract_cols_pack this h2 pc) (enumerate 0 Jc)
                  (replicate (nat nq) [])) (\<lambda>sbuf.
           Inr (tmp, Some (rsizes, sbuf), h2))))))"

definition extract_cols_unpack ::
  "DistributedMatrix \<Rightarrow> DistributedMatrix \<Rightarrow> int \<Rightarrow> nat \<times> nat
     \<Rightarrow> real option list list \<times> heap \<Rightarrow> error + (real option list list \<times> heap)" where
  "extract_cols_unpack this tmp pc = (\<lambda>(c, gc) (rbuf, h).
     bindE (colg2p this (int gc)) (\<lambda>owner.
       if owner = pc then Inr (rbuf, h)
       else
         bindE (colg2p this (int c)) (\<lambda>dest.
           if dest \<noteq> pc then Inr (rbuf, h)
           else
             bindE (colg2l tmp (int c)) (\<lambda>tmpc.
               fold_res
                 (\<lambda>r (rb, hh).
                    if \<not> (0 \<le> owner \<and> owner < int (length rb)) then Inl OutOfBounds
                    else
                      (case rb ! nat owner of
                         [] \<Rightarrow> Inl OutOfBounds
                       | v # rest \<Rightarrow>
                           bindE (set_elem tmp r tmpc v hh)
                             (\<lambda>hh'. Inr (rb[nat owner := rest], hh'))))
                 [0..lrows this - 1] (rbuf, h)))))"

definition extract_cols_recv ::
  "DistributedMatrix \<Rightarrow> DistributedMatrix \<Rightarrow> nat list \<Rightarrow> int list \<Rightarrow> real option list list
     \<Rightarrow> heap \<Rightarrow> error + heap" where
  "extract_cols_recv this tmp Jc rsizes msgs h =
     bindE (npcols this) (\<lambda>nq. bindE (pcol this) (\<lambda>pc.
     bindE (fold_res
              (\<lambda>p rb. if p = pc then Inr (rb @ [replicate (nat (rsizes ! nat p)) (Some 0)])
                       else bindE (irecv (rsizes ! nat p) (msgs ! nat p))
                              (\<lambda>b. Inr (rb @ [b])))
              [0..nq - 1] []) (\<lambda>rbuf.
     bindE (fold_res (extract_cols_unpack this tmp pc) (enumerate 0 Jc) (rbuf, h))
       (\<lambda>(rb, h'). Inr h'))))"

text \<open>\<^verbatim>\<open>extract_cols\<close> on the workers of one grid row, listed by grid column.\<close>

definition extract_cols_row ::
  "kernels \<Rightarrow> (DistributedMatrix \<times> heap) list \<Rightarrow> nat list
     \<Rightarrow> error + (DistributedMatrix \<times> heap) list" where
  "extract_cols_row K workers Jc =
     bindE (map_res (\<lambda>(this, h). extract_cols_send K this Jc h) workers) (\<lambda>sent.
       map_res
         (\<lambda>(p, (this, h0), (tmp, st, h1)).
            (case st of
               None \<Rightarrow> Inr (tmp, h1)
             | Some (rsizes, sbuf) \<Rightarrow>
                 bindE (extract_cols_recv this tmp Jc rsizes
                          (map (\<lambda>(tmpq, stq, hq).
                                  (case stq of None \<Rightarrow> [] | Some (rsq, sbq) \<Rightarrow> sbq ! p)) sent)
                          h1)
                   (\<lambda>h2. Inr (tmp, h2))))
         (zip [0..<length workers] (zip workers sent)))"

subsection \<open>Orthogonalisation (lines 1208--1260)\<close>

text \<open>
  \<^verbatim>\<open>std::numeric_limits<real_t>::min()\<close> and \<^verbatim>\<open>max()\<close> for \<^verbatim>\<open>real_t = double\<close>: the
  least positive normal value and the greatest finite value.
\<close>

definition numeric_limits_min :: real where
  "numeric_limits_min = 1 / 2 ^ 1022"

definition numeric_limits_max :: real where
  "numeric_limits_max = (2 - 1 / 2 ^ 52) * 2 ^ 1023"

text \<open>
  The loop over the diagonal positions \<open>gi\<close>: the magnitude of a diagonal entry held
  by this worker is folded into \<open>Rmax\<close> and \<open>Rmin\<close>.
\<close>

definition diag_step ::
  "DistributedMatrix \<Rightarrow> heap \<Rightarrow> int \<Rightarrow> real \<times> real \<Rightarrow> error + (real \<times> real)" where
  "diag_step this h gi = (\<lambda>(Rmax, Rmin).
     if fixed this
     then
       bindE (is_local_fixed this gi gi) (\<lambda>loc.
         if loc
         then bindE (DistributedMatrix_global_fixed this h gi gi) (\<lambda>v.
                (case v of
                   None \<Rightarrow> Inl UninitializedRead
                 | Some x \<Rightarrow> Inr (max Rmax \<bar>x\<bar>, min Rmin \<bar>x\<bar>)))
         else Inr (Rmax, Rmin))
     else
       bindE (is_local this gi gi) (\<lambda>loc.
         if loc
         then bindE (DistributedMatrix_global this h gi gi) (\<lambda>v.
                (case v of
                   None \<Rightarrow> Inl UninitializedRead
                 | Some x \<Rightarrow> Inr (max Rmax \<bar>x\<bar>, min Rmin \<bar>x\<bar>)))
         else Inr (Rmax, Rmin)))"

text \<open>
  An active worker up to the two reductions: the buffer \<open>tau\<close>, the values of
  \<^verbatim>\<open>r_max\<close> and \<^verbatim>\<open>r_min\<close> it enters the reductions with, and its heap.
\<close>

definition orthogonalize_contrib ::
  "kernels \<Rightarrow> DistributedMatrix \<Rightarrow> real \<Rightarrow> real \<Rightarrow> heap
     \<Rightarrow> error + (addr \<times> real \<times> real \<times> heap)" where
  "orthogonalize_contrib K this r_max r_min h =
     (let minmn = min (rows this) (cols this);
          N = col_J this + minmn - 1
      in bindE (pcol this) (\<lambda>pc. bindE (npcols this) (\<lambda>nq.
         bindE (new_array (numroc K N (NB this) pc 0 nq) h) (\<lambda>(tau, h1).
           (let (info, h2) = pgeqrf K (rows this) minmn (data this) (row_I this) (col_J this)
                               (desc this) tau h1
            in if lrows this \<noteq> 0 \<and> lcols this \<noteq> 0
               then bindE (fold_res (diag_step this h2) [0..minmn - 1]
                             (numeric_limits_min, numeric_limits_max))
                      (\<lambda>(Rmax, Rmin). Inr (tau, Rmax, Rmin, h2))
               else Inr (tau, r_max, r_min, h2))))))"

text \<open>
  Modelled from the spec: the grid-wide reductions are not among the sources. Over the
  values entered by the workers of the grid, \<open>gamx2d\<close> leaves on every worker the one
  of greatest magnitude and \<open>gamn2d\<close> the one of least magnitude.
\<close>

fun gamx2d :: "real list \<Rightarrow> real" where
  "gamx2d [] = 0"
| "gamx2d [x] = x"
| "gamx2d (x # y # ys) = (let m = gamx2d (y # ys) in if \<bar>m\<bar> > \<bar>x\<bar> then m else x)"

fun gamn2d :: "real list \<Rightarrow> real" where
  "gamn2d [] = 0"
| "gamn2d [x] = x"
| "gamn2d (x # y # ys) = (let m = gamn2d (y # ys) in if \<bar>m\<bar> < \<bar>x\<bar> then m else x)"

text \<open>The part after the reductions: the orthogonal factor, and the trailing columns.\<close>

definition orthogonalize_finish ::
  "kernels \<Rightarrow> DistributedMatrix \<Rightarrow> addr \<Rightarrow> heap \<Rightarrow> error + heap" where
  "orthogonalize_finish K this tau h =
     (let minmn = min (rows this) (cols this);
          (info, h3) = pxxgqr K (rows this) minmn minmn (data this) (row_I this) (col_J this)
                         (desc this) tau h
      in if info \<noteq> 0 then Inl Aborted
         else
           bindE (if cols this > rows this
                  then bindE (DistributedMatrixWrapper_ctor (rows this) (cols this - rows this)
                                this 0 (rows this)) (\<lambda>tmp.
                       bindE (DistributedMatrix_zero K tmp h3) (\<lambda>h4.
                         DistributedMatrixWrapper_dtor tmp h4))
                  else Inr h3)
             (\<lambda>h5. delete_array (Some tau) h5))"

text \<open>
  \<^verbatim>\<open>orthogonalize(r_max, r_min)\<close> on one worker, given what the other workers of the
  grid enter the two reductions with: the values of \<^verbatim>\<open>r_max\<close> and \<^verbatim>\<open>r_min\<close> on
  return, and the heap.
\<close>

definition orthogonalize ::
  "kernels \<Rightarrow> DistributedMatrix \<Rightarrow> real \<Rightarrow> real \<Rightarrow> real list \<Rightarrow> real list \<Rightarrow> heap
     \<Rightarrow> error + (real \<times> real \<times> heap)" where
  "orthogonalize K this r_max r_min others_max others_min h =
     (if \<not> active this then Inr (r_max, r_min, h)
      else
        bindE (orthogonalize_contrib K this r_max r_min h) (\<lambda>(tau, cmax, cmin, h2).
        bindE (orthogonalize_finish K this tau h2) (\<lambda>h'.
          Inr (gamx2d (cmax # others_max), gamn2d (cmin # others_min), h'))))"

text \<open>
  The workers of the grid, all active, each with its matrix, the values it passes for
  \<^verbatim>\<open>r_max\<close> and \<^verbatim>\<open>r_min\<close>, and its heap: every worker is given what the others enter
  the reductions with.
\<close>

definition others :: "'a list \<Rightarrow> nat \<Rightarrow> 'a list" where
  "others xs p = take p xs @ drop (Suc p) xs"

definition orthogonalize_grid ::
  "kernels \<Rightarrow> (DistributedMatrix \<times> real \<times> real \<times> heap) list
     \<Rightarrow> error + (real \<times> real \<times> heap) list" where
  "orthogonalize_grid K workers =
     bindE (map_res (\<lambda>(this, r_max, r_min, h). orthogonalize_contrib K this r_max r_min h)
              workers) (\<lambda>cs.
       map_res
         (\<lambda>(p, (this, r_max, r_min, h)).
            orthogonalize K this r_max r_min
              (others (map (\<lambda>(tau, cmax, cmin, h2). cmax) cs) p)
              (others (map (\<lambda>(tau, cmax, cmin, h2). cmin) cs) p) h)
         (zip [0..<length workers] workers))"

subsection \<open>Triangular solve and interpolative decomposition (lines 1321--1346, 1470--1484)\<close>

definition trsm ::
  "kernels \<Rightarrow> Side \<Rightarrow> UpLo \<Rightarrow> Trans \<Rightarrow> Diag \<Rightarrow> real \<Rightarrow> DistributedMatrix \<Rightarrow> DistributedMatrix
     \<Rightarrow> heap \<Rightarrow> error + heap" where
  "trsm K s u ta d alpha A B h =
     (if \<not> active A then Inr h
      else if \<not> (rows A = cols A) then Inl AssertionFailure
      else if \<not> (s \<noteq> Side_L \<or> ta \<noteq> Trans_N \<or> cols A = rows B) then Inl AssertionFailure
      else if \<not> (s \<noteq> Side_L \<or> ta = Trans_N \<or> rows A = rows B) then Inl AssertionFailure
      else if \<not> (s \<noteq> Side_R \<or> ta \<noteq> Trans_N \<or> rows A = cols B) then Inl AssertionFailure
      else if \<not> (s \<noteq> Side_R \<or> ta = Trans_N \<or> cols A = cols B) then Inl AssertionFailure
      else Inr (ptrsm K s u ta d (rows B) (cols B) alpha
                  (data A) (row_I A) (col_J A) (desc A)
                  (data B) (row_I B) (col_J B) (desc B) h))"

text \<open>
  \<^verbatim>\<open>std::vector\<close>: \<^verbatim>\<open>resize\<close> keeps the front and fills with zeros; reading and writing
  an element outside the vector is a failure.
\<close>

definition vec_resize :: "'a::zero list \<Rightarrow> int \<Rightarrow> error + 'a list" where
  "vec_resize v n =
     (if n < 0 then Inl BadAlloc
      else Inr (take (nat n) v @ replicate (nat n - length v) 0))"

definition vec_get :: "'a list \<Rightarrow> int \<Rightarrow> error + 'a" where
  "vec_get v i = (if 0 \<le> i \<and> i < int (length v) then Inr (v ! nat i) else Inl OutOfBounds)"

definition vec_set :: "'a list \<Rightarrow> int \<Rightarrow> 'a \<Rightarrow> error + 'a list" where
  "vec_set v i x = (if 0 \<le> i \<and> i < int (length v) then Inr (v[nat i := x]) else Inl OutOfBounds)"

text \<open>The conversion of an \<^verbatim>\<open>int\<close> to \<^verbatim>\<open>std::size_t\<close> of 64 bits.\<close>

definition to_size_t :: "int \<Rightarrow> nat" where
  "to_size_t i = nat (i mod 2 ^ 64)"

text \<open>
  \<^verbatim>\<open>ID_column(X, piv, ind, rel_tol, abs_tol)\<close>: the matrix left in \<open>X\<close>, the vectors
  \<open>piv\<close> and \<open>ind\<close>, and the heap. The statistics macro is left out.
\<close>

definition ID_column ::
  "kernels \<Rightarrow> DistributedMatrix \<Rightarrow> DistributedMatrix \<Rightarrow> int list \<Rightarrow> nat list \<Rightarrow> real \<Rightarrow> real
     \<Rightarrow> heap \<Rightarrow> error + (DistributedMatrix \<times> int list \<times> nat list \<times> heap)" where
  "ID_column K this X piv ind rel_tol abs_tol h =
     (if \<not> active this then Inr (X, piv, ind, h)
      else if cols this < 0 then Inl BadAlloc
      else
        (let (J1, gpiv1, rank, h1) =
               pgeqpfmod K (rows this) (cols this) (data this) (row_I this) (col_J this)
                 (desc this) [1..cols this] [1..cols this] 0 rel_tol abs_tol h
         in
         bindE (vec_resize piv (add32 (lcols this) (NB this))) (\<lambda>piv1.
         bindE (vec_resize ind rank) (\<lambda>ind1.
         bindE (fold_res
                  (\<lambda>c pv. bindE (coll2g this c) (\<lambda>gc. bindE (vec_get gpiv1 gc) (\<lambda>v.
                     vec_set pv c v)))
                  [0..lcols this - 1] piv1) (\<lambda>piv2.
         bindE (fold_res
                  (\<lambda>c iv. bindE (vec_get J1 c) (\<lambda>j. vec_set iv c (to_size_t (sub32 j 1))))
                  [0..rank - 1] ind1) (\<lambda>ind2.
         bindE (DistributedMatrixWrapper_ctor rank rank this 0 0) (\<lambda>R1.
         bindE (DistributedMatrix_ctor K (grid this) rank (sub32 (cols this) rank)
                  default_MB default_NB h1) (\<lambda>(tmp, h2).
         bindE (DistributedMatrix_move_assign X tmp h2) (\<lambda>(X1, tmp', h3).
         bindE (DistributedMatrix_dtor tmp' h3) (\<lambda>h4.
           (case grid this of
              None \<Rightarrow> Inl NullPointer
            | Some g \<Rightarrow>
                bindE (copy K rank (sub32 (cols this) rank) this 0 rank X1 0 0 (g_ctxt g) h4)
                  (\<lambda>h5.
                bindE (trsm K Side_L UpLo_U Trans_N Diag_N 1 R1 X1 h5) (\<lambda>h6.
                bindE (DistributedMatrixWrapper_dtor R1 h6) (\<lambda>h7.
                  Inr (X1, piv2, ind2, h7)))))))))))))))"

subsection \<open>Concrete grids, heaps and matrices\<close>

definition active_grid :: BLACSGrid where
  "active_grid = \<lparr>g_active = True, g_ctxt = 0, g_ctxt_all = 1, g_nprows = 1, g_npcols = 1,
                  g_prow = 0, g_pcol = 0\<rparr>"

definition inactive_grid :: BLACSGrid where
  "inactive_grid = \<lparr>g_active = False, g_ctxt = - 1, g_ctxt_all = 0, g_nprows = 2, g_npcols = 2,
                    g_prow = - 1, g_pcol = - 1\<rparr>"

text \<open>
  Modelled from the spec: a set of kernels to evaluate with, the library being absent
  from the sources. \<open>numroc\<close> counts the positions \<open>1..n\<close> that \<open>indxg2p\<close> gives
  to the process, the local share of the dimension under the block-cyclic mapping which
  the invariant of the matrix asks for; \<open>descinit\<close> accepts; \<open>pgeqpfmod\<close> reports the columns in reverse order
  and the rank 1 (0 for a matrix without columns); the other kernels are inert.
\<close>

definition count_numroc :: "int \<Rightarrow> int \<Rightarrow> int \<Rightarrow> int \<Rightarrow> int \<Rightarrow> int" where
  "count_numroc n nb iproc isrcproc nprocs =
     int (length (filter (\<lambda>g. indxg2p g nb iproc isrcproc nprocs = Inr iproc) [1..n]))"

definition ref_kernels :: kernels where
  "ref_kernels =
     \<lparr>numroc = count_numroc,
      descinit_info = (\<lambda>m n mb nb rsrc csrc ictxt lld. 0),
      infog2l = (\<lambda>gr gc d np nq pr pc. (1, 1)),
      plange = (\<lambda>t m n a i j d h. 0),
      pgemr2d = (\<lambda>m n a ia ja da b ib jb db c h. h),
      default_rgen = (\<lambda>pr pc k. 0),
      pgeqrf = (\<lambda>m n a i j d tau h. (0, h)),
      pxxgqr = (\<lambda>m n k a i j d tau h. (0, h)),
      pgeqpfmod = (\<lambda>m n a i j d J0 gpiv0 rank0 rel_tol abs_tol h. (rev J0, rev gpiv0, min 1 n, h)),
      ptrsm = (\<lambda>s u ta di m n alpha a ia ja da b ib jb db h. h)\<rparr>"

definition empty_heap :: heap where
  "empty_heap = []"

definition owner_heap :: heap where
  "owner_heap = [Some [Some 1, Some 2, Some 3, Some 4]]"

definition inactive_matrix :: DistributedMatrix where
  "inactive_matrix = \<lparr>grid = Some inactive_grid, data = None, lrows = 0, lcols = 0,
                      desc = descset 4 4 2 2 0 0 (- 1) 1, wrapper = None\<rparr>"

definition owner_matrix :: DistributedMatrix where
  "owner_matrix = \<lparr>grid = Some active_grid, data = Some 0, lrows = 2, lcols = 2,
                   desc = descset 2 2 32 32 0 0 0 2, wrapper = None\<rparr>"

definition view_matrix :: DistributedMatrix where
  "view_matrix = owner_matrix\<lparr>wrapper := Some \<lparr>w_rows = 1, w_cols = 2, w_i = 1, w_j = 0\<rparr>\<rparr>"

text \<open>
  The example of the extraction property: a 7 by 5 matrix with block size 2 on a 2 by 2
  grid, whose entry \<open>(i, j)\<close> is \<open>10 i + j\<close>, as the worker at grid position
  \<open>(p, q)\<close> holds it.
\<close>

definition grid22 :: "int \<Rightarrow> int \<Rightarrow> BLACSGrid" where
  "grid22 p q = \<lparr>g_active = True, g_ctxt = 0, g_ctxt_all = 1, g_nprows = 2, g_npcols = 2,
                 g_prow = p, g_pcol = q\<rparr>"

definition example_worker :: "int \<Rightarrow> int \<Rightarrow> error + (DistributedMatrix \<times> heap)" where
  "example_worker p q =
     bindE (DistributedMatrix_ctor ref_kernels (Some (grid22 p q)) 7 5 2 2 empty_heap) (\<lambda>(A, h).
     bindE (fold_res (\<lambda>(i, j). DistributedMatrix_global_set A i j (real_of_int (10 * i + j)))
              (loop_cells 0 7 0 5) h) (\<lambda>h'. Inr (A, h')))"

definition example_rows :: "nat list" where
  "example_rows = [3, 3, 0, 4]"

text \<open>
  Row \<open>i\<close> of the extracted matrix as the worker at grid position \<open>(0, 0)\<close> holds it
  when it returns from \<^verbatim>\<open>extract_rows\<close>, having received what the worker at \<open>(1, 0)\<close>
  packed for it.
\<close>

definition example_extracted_row :: "int \<Rightarrow> error + real option list" where
  "example_extracted_row i =
     bindE (example_worker 0 0) (\<lambda>(A0, h0). bindE (example_worker 1 0) (\<lambda>(A1, h1).
     bindE (extract_rows_send ref_kernels A0 example_rows h0) (\<lambda>(tmp0, st0, g0).
     bindE (extract_rows_send ref_kernels A1 example_rows h1) (\<lambda>(tmp1, st1, g1).
       (case (st0, st1) of
          (Some (rs0, sb0), Some (rs1, sb1)) \<Rightarrow>
            bindE (extract_rows_recv A0 tmp0 example_rows rs0 [sb0 ! 0, sb1 ! 0] g0) (\<lambda>k0.
              map_res (\<lambda>j. DistributedMatrix_global tmp0 k0 i j) [0, 1, 2, 3, 4])
        | _ \<Rightarrow> Inl Aborted)))))"

text \<open>
  Column \<open>j\<close> of the matrix of extracted columns as the worker at \<open>(0, 0)\<close> holds it
  when it returns from \<^verbatim>\<open>extract_cols\<close>, having received what the worker at \<open>(0, 1)\<close>
  packed for it.
\<close>

definition example_extracted_col :: "int \<Rightarrow> error + real option list" where
  "example_extracted_col j =
     bindE (example_worker 0 0) (\<lambda>(A0, h0). bindE (example_worker 0 1) (\<lambda>(A1, h1).
     bindE (extract_cols_send ref_kernels A0 example_rows h0) (\<lambda>(tmp0, st0, g0).
     bindE (extract_cols_send ref_kernels A1 example_rows h1) (\<lambda>(tmp1, st1, g1).
       (case (st0, st1) of
          (Some (rs0, sb0), Some (rs1, sb1)) \<Rightarrow>
            bindE (extract_cols_recv A0 tmp0 example_rows rs0 [sb0 ! 0, sb1 ! 0] g0) (\<lambda>k0.
              map_res (\<lambda>i. DistributedMatrix_global tmp0 k0 i j) [0, 1, 2, 3, 4, 5, 6])
        | _ \<Rightarrow> Inl Aborted)))))"

text \<open>
  A 1 by 1 matrix with the entry 2 and the default block size on a grid of 2 by 1
  workers: the worker at grid row 0 holds the entry, the worker at grid row 1 holds
  nothing. Both pass 100 for \<^verbatim>\<open>r_max\<close> and 0 for \<^verbatim>\<open>r_min\<close>.
\<close>

definition grid21 :: "int \<Rightarrow> BLACSGrid" where
  "grid21 p = \<lparr>g_active = True, g_ctxt = 0, g_ctxt_all = 1, g_nprows = 2, g_npcols = 1,
               g_prow = p, g_pcol = 0\<rparr>"

definition single_entry_worker ::
  "int \<Rightarrow> error + (DistributedMatrix \<times> real \<times> real \<times> heap)" where
  "single_entry_worker p =
     bindE (DistributedMatrix_ctor ref_kernels (Some (grid21 p)) 1 1 default_MB default_NB
              empty_heap) (\<lambda>(A, h).
     bindE (DistributedMatrix_fill ref_kernels 2 A h) (\<lambda>h'. Inr (A, 100, 0, h')))"

text \<open>
  A default-constructed matrix to receive a result, and the view of the second column of
  \<open>owner_matrix\<close>, as the wrapper's constructor makes it.
\<close>

definition fresh_X :: DistributedMatrix where
  "fresh_X = \<lparr>grid = None, data = None, lrows = 0, lcols = 0,
              desc = descset 0 0 32 32 0 0 (- 1) 1, wrapper = None\<rparr>"

definition offset_view :: DistributedMatrix where
  "offset_view = owner_matrix\<lparr>wrapper := Some \<lparr>w_rows = 2, w_cols = 1, w_i = 0, w_j = 1\<rparr>\<rparr>"

text \<open>
  A 34 by 2 matrix with the default block size on 2 by 1 workers, whose entry \<open>(i, j)\<close>
  is \<open>10 i + j\<close>: rows 0 to 31 are on the worker at grid row 0, rows 32 and 33 on the
  worker at grid row 1.
\<close>

definition default_block_worker :: "int \<Rightarrow> error + (DistributedMatrix \<times> heap)" where
  "default_block_worker p =
     bindE (DistributedMatrix_ctor ref_kernels (Some (grid21 p)) 34 2 default_MB default_NB
              empty_heap) (\<lambda>(A, h).
     bindE (fold_res (\<lambda>(i, j). DistributedMatrix_global_set A i j (real_of_int (10 * i + j)))
              (loop_cells 0 34 0 2) h) (\<lambda>h'. Inr (A, h')))"

section \<open>Properties\<close>

subsection \<open>Basic facts\<close>

lemma bindE_Inr [simp]: "bindE (Inr v) f = f v"
  by (simp add: bindE_def)

lemma bindE_Inl [simp]: "bindE (Inl e) f = Inl e"
  by (simp add: bindE_def)

lemma delete_array_None [simp]: "delete_array None h = Inr h"
  by (simp add: delete_array_def)

lemma sdiv_nonneg: "0 \<le> a \<Longrightarrow> 0 \<le> b \<Longrightarrow> (a::int) sdiv b = a div b"
  by (cases "a = 0"; cases "b = 0") (simp_all add: signed_divide_int_def sgn_if)

lemma smod_nonneg: "0 \<le> a \<Longrightarrow> 0 \<le> b \<Longrightarrow> (a::int) smod b = a mod b"
  by (cases "a = 0"; cases "b = 0") (simp_all add: signed_modulo_int_def sgn_if)

lemma div_add_block:
  fixes m x q :: int
  shows "0 < m \<Longrightarrow> 0 \<le> x \<Longrightarrow> x < m \<Longrightarrow> (q * m + x) div m = q"
  by (simp add: div_pos_pos_trivial)

text \<open>
  The position \<open>N * B * q + r + p * B\<close> lies in block \<open>N * q + p\<close>, at offset \<open>r\<close>,
  in round \<open>q\<close> of the cycle over the \<open>N\<close> owners.
\<close>

lemma block_decomp:
  fixes B N p q r :: int
  assumes "1 \<le> B" "1 \<le> N" "0 \<le> p" "p < N" "0 \<le> q" "0 \<le> r" "r < B"
  shows "(N * B * q + r + p * B) div (B * N) = q"
    and "(N * B * q + r + p * B) mod B = r"
    and "(N * B * q + r + p * B) div B = N * q + p"
proof -
  have lt: "p * B + r < B * N"
  proof -
    have "p * B + r < p * B + B" using assms by simp
    also have "\<dots> = (p + 1) * B" by (simp add: algebra_simps)
    also have "\<dots> \<le> N * B" using assms by (intro mult_right_mono) auto
    finally show ?thesis by (simp add: mult.commute)
  qed
  have ge: "0 \<le> p * B + r" using assms by simp
  have e1: "N * B * q + r + p * B = q * (B * N) + (p * B + r)" by (simp add: algebra_simps)
  show "(N * B * q + r + p * B) div (B * N) = q"
    unfolding e1 using lt ge assms by (intro div_add_block) auto
  have e2: "N * B * q + r + p * B = (N * q + p) * B + r" by (simp add: algebra_simps)
  show "(N * B * q + r + p * B) mod B = r"
    unfolding e2 using assms by simp
  show "(N * B * q + r + p * B) div B = N * q + p"
    unfolding e2 using assms by (simp add: div_pos_pos_trivial)
qed

subsection \<open>Index mapping\<close>

lemma int32_id: "- 2147483648 \<le> x \<Longrightarrow> x \<le> 2147483647 \<Longrightarrow> int32 x = x"
  by (simp add: int32_def)

lemma add32_id: "- 2147483648 \<le> a + b \<Longrightarrow> a + b \<le> 2147483647 \<Longrightarrow> add32 a b = a + b"
  by (simp add: add32_def int32_id)

lemma sub32_id: "- 2147483648 \<le> a - b \<Longrightarrow> a - b \<le> 2147483647 \<Longrightarrow> sub32 a b = a - b"
  by (simp add: sub32_def int32_id)

lemma mul32_id: "- 2147483648 \<le> a * b \<Longrightarrow> a * b \<le> 2147483647 \<Longrightarrow> mul32 a b = a * b"
  by (simp add: mul32_def int32_id)

lemma div32_nonneg: "0 \<le> a \<Longrightarrow> 0 < b \<Longrightarrow> div32 a b = Inr (a div b)"
  by (simp add: div32_def sdiv_nonneg)

lemma mod32_nonneg: "0 \<le> a \<Longrightarrow> 0 < b \<Longrightarrow> mod32 a b = Inr (a mod b)"
  by (simp add: mod32_def smod_nonneg)

text \<open>
  Claim C1 as stated: for every block size \<open>B \<ge> 1\<close>, grid extent \<open>N \<ge> 1\<close>, owner
  \<open>p\<close> in \<open>[0, N)\<close> and local index \<open>l\<close> of \<open>p\<close>, the global index maps back to
  \<open>l\<close>. It fails in the type \<^verbatim>\<open>int\<close>: for \<open>B = N = 65537\<close>, \<open>p = 2\<close> and
  \<open>l = 1\<close> the product \<open>NPROCS*NB\<close> wraps around, the global index 131075 of
  \<open>l\<close> maps back to 65538; and for \<open>B = N = 65536\<close>, \<open>p = 0\<close> and \<open>l = 1\<close> the
  product is 0 and mapping the global index 1 back divides by zero.
\<close>

theorem indx_round_trip_overflow:
  "indxl2g 1 65537 2 0 65537 = Inr 131075 \<and>
   indxg2l 131075 65537 2 0 65537 = Inr 65538 \<and>
   indxl2g 1 65536 0 0 65536 = Inr 1 \<and>
   indxg2l 1 65536 0 0 65536 = Inl DivisionTrap"
  by (simp add: indxl2g_def indxg2l_def div32_def mod32_def add32_def sub32_def mul32_def
      int32_def signed_divide_int_def signed_modulo_int_def)

text \<open>
  Claim C1, amended. Let \<open>B \<ge> 1\<close>, \<open>N \<ge> 1\<close>, \<open>0 \<le> p < N\<close> and \<open>l \<ge> 1\<close> (the
  mappings count from 1, the source process is 0), and let the product \<open>B * N\<close>, the
  sum \<open>N + p\<close> and the global index
  \<open>g = N * B * ((l - 1) div B) + (l - 1) mod B + p * B + 1\<close> be at most \<open>INT_MAX\<close>.
  Then \<open>indxl2g\<close> maps \<open>l\<close> on \<open>p\<close> to \<open>g\<close>, \<open>indxg2l\<close> maps \<open>g\<close> back to
  \<open>l\<close>, and \<open>indxg2p\<close> gives the owner \<open>p\<close> of \<open>g\<close>, whatever coordinates \<open>q\<close>
  and \<open>q'\<close> the asking worker passes for itself.
\<close>

theorem indx_round_trip_in_range:
  assumes "1 \<le> B" "1 \<le> N" "0 \<le> p" "p < N" "1 \<le> l"
    and BN: "B * N \<le> INT_MAX" and Np: "N + p \<le> INT_MAX"
    and g: "g = N * B * ((l - 1) div B) + (l - 1) mod B + p * B + 1"
    and gmax: "g \<le> INT_MAX"
  shows "indxl2g l B p 0 N = Inr g \<and>
         indxg2l g B q 0 N = Inr l \<and>
         indxg2p g B q' 0 N = Inr p"
proof -
  define k where "k = (l - 1) div B"
  define r where "r = (l - 1) mod B"
  have k0: "0 \<le> k" and r0: "0 \<le> r" and rB: "r < B"
    using assms(1,5) by (simp_all add: k_def r_def pos_imp_zdiv_nonneg_iff)
  have l_eq: "l - 1 = B * k + r" by (simp add: k_def r_def)
  have g_eq: "g - 1 = N * B * k + r + p * B" using g by (simp add: k_def r_def)
  have BN': "B * N \<le> 2147483647" using BN by (simp add: INT_MAX_def)
  have Np': "N + p \<le> 2147483647" using Np by (simp add: INT_MAX_def)
  have gm: "g \<le> 2147483647" using gmax by (simp add: INT_MAX_def)
  have B1: "1 \<le> B" and N1: "1 \<le> N" and p0: "0 \<le> p" and pN: "p < N" and l1: "1 \<le> l"
    using assms(1-5) by simp_all
  have NB0: "0 < N * B" using B1 N1 by simp
  have BN0: "0 < B * N" using B1 N1 by simp
  have t1: "0 \<le> N * B * k" using NB0 k0 by simp
  have t2: "0 \<le> p * B" using p0 B1 by simp
  have Bk: "0 \<le> B * k" using B1 k0 by simp
  have "B * k \<le> N * B * k"
  proof -
    have "1 * (B * k) \<le> N * (B * k)" using N1 Bk by (intro mult_right_mono) auto
    then show ?thesis by (simp add: mult.assoc)
  qed
  then have lg: "l \<le> g" using l_eq g_eq t2 by linarith
  note d = block_decomp[OF B1 N1 p0 pN k0 r0 rB]
  \<comment> \<open>from the local to the global index\<close>
  have s1: "sub32 l 1 = l - 1" using l1 lg gm by (intro sub32_id) linarith+
  have q1: "div32 (l - 1) B = Inr k" using l1 B1 by (simp add: div32_nonneg k_def)
  have m1: "mod32 (l - 1) B = Inr r" using l1 B1 by (simp add: mod32_nonneg r_def)
  have a1: "add32 N p = N + p" using N1 p0 Np' by (intro add32_id) linarith+
  have "sub32 (N + p) 0 = N + p - 0" using N1 p0 Np' by (intro sub32_id) linarith+
  then have s2: "sub32 (N + p) 0 = N + p" by simp
  have "(N + p) mod N = p" using p0 pN by simp
  then have m2: "mod32 (N + p) N = Inr p" using N1 p0 by (simp add: mod32_nonneg)
  have p1: "mul32 N B = N * B"
    using NB0 BN' by (intro mul32_id) (simp_all add: mult.commute)
  have p2: "mul32 (N * B) k = N * B * k"
    using t1 t2 r0 g_eq gm by (intro mul32_id) linarith+
  have a2: "add32 (N * B * k) r = N * B * k + r"
    using t1 t2 r0 g_eq gm by (intro add32_id) linarith+
  have p3: "mul32 p B = p * B"
    using t1 t2 r0 g_eq gm by (intro mul32_id) linarith+
  have a3: "add32 (N * B * k + r) (p * B) = N * B * k + r + p * B"
    using t1 t2 r0 g_eq gm by (intro add32_id) linarith+
  have "add32 (N * B * k + r + p * B) 1 = N * B * k + r + p * B + 1"
    using t1 t2 r0 g_eq gm by (intro add32_id) linarith+
  then have a4: "add32 (N * B * k + r + p * B) 1 = g" using g_eq by simp
  have L2G: "indxl2g l B p 0 N = Inr g"
    by (simp add: indxl2g_def s1 q1 m1 a1 s2 m2 p1 p2 a2 p3 a3 a4)
  \<comment> \<open>from the global to the local index\<close>
  have g0: "0 \<le> g - 1" using g_eq t1 t2 r0 by linarith
  have s3: "sub32 g 1 = g - 1" using g0 gm by (intro sub32_id) linarith+
  have p4: "mul32 B N = B * N"
    using BN0 BN' by (intro mul32_id) simp_all
  have "(g - 1) div (B * N) = k" using d(1) g_eq by simp
  then have q2: "div32 (g - 1) (B * N) = Inr k"
    using g0 BN0 by (simp add: div32_nonneg)
  have "(g - 1) mod B = r" using d(2) g_eq by simp
  then have m3: "mod32 (g - 1) B = Inr r"
    using g0 B1 by (simp add: mod32_nonneg)
  have p5: "mul32 B k = B * k"
    using Bk l_eq r0 lg gm by (intro mul32_id) linarith+
  have a5: "add32 (B * k) r = B * k + r"
    using Bk l_eq r0 lg gm by (intro add32_id) linarith+
  have "add32 (B * k + r) 1 = B * k + r + 1"
    using Bk l_eq r0 lg gm by (intro add32_id) linarith+
  then have a6: "add32 (B * k + r) 1 = l" using l_eq by simp
  have G2L: "indxg2l g B q 0 N = Inr l"
    by (simp add: indxg2l_def s3 p4 q2 m3 p5 a5 a6)
  \<comment> \<open>the owner\<close>
  have "(g - 1) div B = N * k + p" using d(3) g_eq by simp
  then have q3: "div32 (g - 1) B = Inr (N * k + p)"
    using g0 B1 by (simp add: div32_nonneg)
  have blk: "0 \<le> N * k + p" using N1 k0 p0 by simp
  have blk_le: "N * k + p \<le> g - 1"
  proof -
    have "(N * k + p) * 1 \<le> (N * k + p) * B"
      using blk B1 by (intro mult_left_mono) auto
    then show ?thesis using g_eq r0 by (simp add: algebra_simps)
  qed
  have a7: "add32 0 (N * k + p) = 0 + (N * k + p)"
    using blk blk_le gm by (intro add32_id) linarith+
  have "(N * k + p) mod N = p" using p0 pN by simp
  then have m4: "mod32 (N * k + p) N = Inr p"
    using blk N1 by (simp add: mod32_nonneg)
  have G2P: "indxg2p g B q' 0 N = Inr p"
    by (simp add: indxg2p_def s3 q3 a7 m4)
  show ?thesis using L2G G2L G2P by simp
qed

text \<open>
  Local index 5 on owner 1 of 3, with block size 2, is the global index 15; the worker
  that asks for the local index is at coordinate 0, the one that asks for the owner at 2.
\<close>

theorem indx_round_trip_in_range_witness:
  "indxl2g 5 2 1 0 3 = Inr 15 \<and> indxg2l 15 2 0 0 3 = Inr 5 \<and> indxg2p 15 2 2 0 3 = Inr 1"
  using indx_round_trip_in_range [of 2 3 1 5 15 0 2] by (simp add: INT_MAX_def)

subsection \<open>Construction on an inactive worker\<close>

text \<open>Construction by shape leaves an inactive worker with an empty matrix.\<close>

lemma ctor_inactive_empty:
  assumes "\<not> (case g of None \<Rightarrow> False | Some gr \<Rightarrow> g_active gr)"
    and "M \<ge> 0" "N \<ge> 0" "MB0 \<ge> 0" "NB0 \<ge> 0"
  shows "\<exists>m. DistributedMatrix_ctor K g M N MB0 NB0 h = Inr (m, h) \<and>
             lrows m = 0 \<and> lcols m = 0 \<and> data m = None"
  using assms by (simp add: DistributedMatrix_ctor_def active_def Let_def)

text \<open>
  Claim C4 says that every constructor leaves an inactive worker with local row count 0,
  local column count 0 and a null buffer. Construction from a grid and a descriptor tests
  \<^verbatim>\<open>if (active())\<close> where construction by shape tests \<^verbatim>\<open>if (!active())\<close>. For the
  descriptor \<open>{1, -1, 4, 4, 2, 2, 0, 0, 2}\<close>: with a null grid the constructor fails the
  assertion of \<^verbatim>\<open>prow()\<close>; with a grid that is not active it fails or returns a matrix
  of 2 local rows, whatever \<open>numroc\<close> is; on an active worker it returns the empty
  matrix. Construction by shape with the null grid returns the empty matrix.
\<close>

theorem ctor_desc_guard_inverted:
  "DistributedMatrix_ctor_desc K None (descset 4 4 2 2 0 0 (- 1) 2) h = Inl AssertionFailure \<and>
   (case DistributedMatrix_ctor_desc K (Some inactive_grid) (descset 4 4 2 2 0 0 (- 1) 2) h of
      Inl e \<Rightarrow> e = AssertionFailure \<or> e = BadAlloc
    | Inr (m, h') \<Rightarrow> lrows m = 2) \<and>
   DistributedMatrix_ctor_desc K (Some active_grid) (descset 4 4 2 2 0 0 0 2) h =
     Inr (\<lparr>grid = Some active_grid, data = None, lrows = 0, lcols = 0,
           desc = descset 4 4 2 2 0 0 0 2, wrapper = None\<rparr>, h) \<and>
   DistributedMatrix_ctor K None 4 4 2 2 h =
     Inr (\<lparr>grid = None, data = None, lrows = 0, lcols = 0,
           desc = descset 4 4 2 2 0 0 (- 1) 1, wrapper = None\<rparr>, h)"
  by (simp add: DistributedMatrix_ctor_desc_def DistributedMatrix_ctor_def active_def prow_def
      nprows_def pcol_def npcols_def descset_def inactive_grid_def active_grid_def
      new_array_def Let_def)

subsection \<open>Move\<close>

text \<open>
  Claim C6 as stated: after a move from \<open>m\<close> the destination holds the buffer, grid and
  descriptor of \<open>m\<close>, and \<open>m\<close> has a null buffer and local counts 0. It fails for the
  2 by 2 matrix \<open>owner_matrix\<close>: the source keeps its local counts.
\<close>

theorem move_ctor_source_keeps_counts:
  "\<not> (case DistributedMatrix_move_ctor owner_matrix of
        (d, s) \<Rightarrow> data d = data owner_matrix \<and> grid d = grid owner_matrix \<and>
                  desc d = desc owner_matrix \<and>
                  data s = None \<and> lrows s = 0 \<and> lcols s = 0)"
  by (simp add: DistributedMatrix_move_ctor_def owner_matrix_def)

text \<open>
  Claim C6, amended. After move construction or move assignment from a matrix \<open>m\<close> (of
  nine descriptor entries; for the assignment to another object whose buffer is null or
  allocated), the destination holds the buffer, grid, local counts and descriptor of
  \<open>m\<close>, and \<open>m\<close> differs from what it was only in its buffer pointer, which is null: its
  local counts and descriptor are kept. The assignment frees the former buffer of the
  destination.
\<close>

theorem move_steals_buffer_only:
  assumes "length (desc m) = 9"
    and "data this = None \<or> (\<exists>a buf. data this = Some a \<and> buffer_at h a = Some buf)"
  shows "DistributedMatrix_move_ctor m =
           (\<lparr>grid = grid m, data = data m, lrows = lrows m, lcols = lcols m,
             desc = desc m, wrapper = None\<rparr>, m\<lparr>data := None\<rparr>) \<and>
         (\<exists>h'. delete_array (data this) h = Inr h' \<and>
               DistributedMatrix_move_assign this m h =
                 Inr (this\<lparr>grid := grid m, data := data m, lrows := lrows m,
                          lcols := lcols m, desc := desc m\<rparr>, m\<lparr>data := None\<rparr>, h'))"
  using assms
  by (auto simp: DistributedMatrix_move_ctor_def DistributedMatrix_move_assign_def
      delete_array_def Let_def)

theorem move_steals_buffer_only_witness:
  "length (desc owner_matrix) = 9 \<and>
   DistributedMatrix_move_ctor owner_matrix =
     (owner_matrix, owner_matrix\<lparr>data := None\<rparr>) \<and>
   (\<exists>h'. delete_array (data inactive_matrix) owner_heap = Inr h' \<and>
      DistributedMatrix_move_assign inactive_matrix owner_matrix owner_heap =
        Inr (owner_matrix, owner_matrix\<lparr>data := None\<rparr>, h'))"
proof -
  have a: "length (desc owner_matrix) = 9" by (simp add: owner_matrix_def descset_def)
  have b: "data inactive_matrix = None \<or>
           (\<exists>a buf. data inactive_matrix = Some a \<and> buffer_at owner_heap a = Some buf)"
    by (simp add: inactive_matrix_def)
  show ?thesis
    using a move_steals_buffer_only [OF a b]
    by (simp add: owner_matrix_def inactive_matrix_def)
qed

subsection \<open>Filling operations on an inactive worker\<close>

lemma guarded_fill_ops_inactive_noop:
  assumes "\<not> active m"
  shows "DistributedMatrix_zero K m h = Inr h"
    and "DistributedMatrix_fill K v m h = Inr h"
    and "DistributedMatrix_eye K m h = Inr h"
    and "DistributedMatrix_random K m h = Inr h"
    and "DistributedMatrix_random_gen K get rgen m h = Inr (rgen, h)"
  using assms
  by (simp_all add: DistributedMatrix_zero_def DistributedMatrix_fill_def
      DistributedMatrix_eye_def DistributedMatrix_random_def DistributedMatrix_random_gen_def)

lemma loop_cells_empty: "rhi \<le> rlo \<or> chi \<le> clo \<Longrightarrow> loop_cells rlo rhi clo chi = []"
  by (auto simp: loop_cells_def)

text \<open>On a matrix that is not a wrapper and has no local cell, \<open>shift\<close> does nothing.\<close>

lemma shift_empty_local_noop:
  assumes "wrapper m = None" "lrows m \<le> 0 \<or> lcols m \<le> 0"
  shows "DistributedMatrix_shift K sigma m h = Inr h"
  using assms by (simp add: DistributedMatrix_shift_def lranges_def loop_cells_empty)

text \<open>
  Claim C7 says that \<open>zero\<close>, \<open>fill\<close>, \<open>eye\<close>, \<open>shift\<close> and both \<open>random\<close> do nothing
  on an inactive worker. \<open>shift\<close> is the one of them without the test of \<^verbatim>\<open>active()\<close>.
  On a default-constructed wrapper, which is inactive, the other operations return at
  once, and \<open>shift\<close> calls the wrapper's \<^verbatim>\<open>lranges\<close>, which fails the assertion of
  \<^verbatim>\<open>nprows()\<close> on the null grid.
\<close>

theorem shift_inactive_wrapper_fails:
  "\<exists>w. DistributedMatrixWrapper_default_ctor K h = Inr (w, h) \<and> \<not> active w \<and>
       DistributedMatrix_zero K w h = Inr h \<and>
       DistributedMatrix_fill K v w h = Inr h \<and>
       DistributedMatrix_eye K w h = Inr h \<and>
       DistributedMatrix_random K w h = Inr h \<and>
       DistributedMatrix_random_gen K get rgen w h = Inr (rgen, h) \<and>
       DistributedMatrix_shift K sigma w h = Inl AssertionFailure"
  by (simp add: DistributedMatrixWrapper_default_ctor_def DistributedMatrix_default_ctor_def
      DistributedMatrix_ctor_def default_MB_def default_NB_def active_def
      DistributedMatrix_zero_def DistributedMatrix_fill_def DistributedMatrix_eye_def
      DistributedMatrix_random_def DistributedMatrix_random_gen_def
      DistributedMatrix_shift_def lranges_def nprows_def Let_def)

subsection \<open>Wrappers never reshape or free the buffer they share\<close>

lemma wrapper_shares_buffer:
  "DistributedMatrixWrapper_ctor m n A i j = Inr w \<Longrightarrow> data w = data A \<and> wrapper w \<noteq> None"
  by (auto simp: DistributedMatrixWrapper_ctor_def split: if_splits)

text \<open>Clearing the owner frees its buffer.\<close>

lemma owner_clear_frees_buffer:
  assumes "data m = Some a" "buffer_at h a = Some buf"
  shows "\<exists>m' h'. DistributedMatrix_clear m h = Inr (m', h') \<and> buffer_at h' a = None"
  using assms
  by (auto simp: DistributedMatrix_clear_def delete_array_def buffer_at_def Let_def
      split: if_splits)

text \<open>
  Claim C8. A call of \<open>resize\<close> or \<open>hconcat\<close> on an object whose dynamic type is the
  wrapper returns the object and the heap as they were: the advertised shape, the
  descriptor, the local counts, and every buffer, the owner's among them, are unchanged.
\<close>

theorem wrapper_resize_hconcat_noop:
  assumes "wrapper w \<noteq> None"
  shows "resize K m n w h = Inr (w, h) \<and> hconcat K b w h = Inr (w, h)"
  using assms
  by (auto simp: resize_def hconcat_def DistributedMatrixWrapper_resize_def
      DistributedMatrixWrapper_hconcat_def split: option.splits)

theorem wrapper_resize_hconcat_noop_witness:
  "wrapper view_matrix \<noteq> None \<and>
   resize ref_kernels 5 5 view_matrix owner_heap = Inr (view_matrix, owner_heap) \<and>
   hconcat ref_kernels owner_matrix view_matrix owner_heap = Inr (view_matrix, owner_heap)"
proof -
  have h: "wrapper view_matrix \<noteq> None" by (simp add: view_matrix_def)
  show ?thesis
    using h wrapper_resize_hconcat_noop [OF h, of ref_kernels 5 5 owner_heap owner_matrix]
    by simp
qed

text \<open>
  Claim C10. Destroying or clearing a wrapper leaves the heap as it was, so no buffer is
  freed and no content changes: the wrapper's pointer is set to null first, and the
  \<^verbatim>\<open>delete[]\<close> of the base class then finds the null pointer. The cleared wrapper has a
  null pointer and local counts 0.
\<close>

theorem wrapper_clear_dtor_keep_heap:
  "DistributedMatrixWrapper_dtor w h = Inr h \<and>
   (\<exists>w'. DistributedMatrixWrapper_clear w h = Inr (w', h) \<and> data w' = None \<and>
          lrows w' = 0 \<and> lcols w' = 0)"
  by (simp add: DistributedMatrixWrapper_dtor_def DistributedMatrixWrapper_clear_def
      DistributedMatrix_dtor_def DistributedMatrix_clear_def Let_def)

subsection \<open>Norms on an inactive worker\<close>

text \<open>
  Claim C9. On a worker that is not active, each of \<open>norm\<close>, \<open>norm1\<close>, \<open>normI\<close> and
  \<open>normF\<close> returns the negative value \<open>-1\<close> and leaves the heap as it was (the
  functions are \<^verbatim>\<open>const\<close>: the object is not changed).
\<close>

theorem norms_inactive_sentinel:
  assumes "\<not> active m"
  shows "DistributedMatrix_norm K m h = Inr (- 1, h) \<and>
         DistributedMatrix_norm1 K m h = Inr (- 1, h) \<and>
         DistributedMatrix_normI K m h = Inr (- 1, h) \<and>
         DistributedMatrix_normF K m h = Inr (- 1, h)"
  using assms
  by (simp add: DistributedMatrix_norm_def DistributedMatrix_norm1_def
      DistributedMatrix_normI_def DistributedMatrix_normF_def)

theorem norms_inactive_sentinel_witness:
  "\<not> active inactive_matrix \<and>
   DistributedMatrix_norm ref_kernels inactive_matrix empty_heap = Inr (- 1, empty_heap) \<and>
   DistributedMatrix_norm1 ref_kernels inactive_matrix empty_heap = Inr (- 1, empty_heap) \<and>
   DistributedMatrix_normI ref_kernels inactive_matrix empty_heap = Inr (- 1, empty_heap) \<and>
   DistributedMatrix_normF ref_kernels inactive_matrix empty_heap = Inr (- 1, empty_heap)"
proof -
  have h: "\<not> active inactive_matrix"
    by (simp add: active_def inactive_matrix_def inactive_grid_def)
  show ?thesis using h norms_inactive_sentinel [OF h, of ref_kernels empty_heap] by simp
qed

subsection \<open>Extraction of rows\<close>

text \<open>
  With the default block size the rows arrive: for the 34 by 2 matrix and the list
  \<open>[33, 0, 33, 1]\<close> the result, read by global position column after column on the
  worker at grid row 0, is rows 33, 0, 33 and 1 of the matrix.
\<close>

lemma extract_rows_default_block_example:
  "bindE (default_block_worker 0) (\<lambda>w0. bindE (default_block_worker 1) (\<lambda>w1.
   bindE (extract_rows_column ref_kernels [w0, w1] [33, 0, 33, 1]) (\<lambda>ws.
     (case ws ! 0 of
        (tmp, h) \<Rightarrow>
          map_res (\<lambda>(i, j). DistributedMatrix_global tmp h i j) (loop_cells 0 4 0 2))))) =
   Inr [Some 330, Some 0, Some 330, Some 10, Some 331, Some 1, Some 331, Some 11]"
  by code_simp

text \<open>
  Claim C2 says that for every matrix and every list of global indices, row \<open>i\<close> of
  \<^verbatim>\<open>extract_rows(indices)\<close> is row \<open>indices[i]\<close> of the matrix, and likewise for the
  columns of \<^verbatim>\<open>extract_cols\<close>; its example is a 7 by 5 matrix with block size 2 on a
  2 by 2 grid and the list \<open>[3, 3, 0, 4]\<close>. The result is built with the default block
  size 32, the destination of list position \<open>r\<close> is computed with the block size of the
  source, and rows are copied by local column (columns by local row). On the example,
  with entry \<open>(i, j)\<close> equal to \<open>10 i + j\<close>: the run of \<^verbatim>\<open>extract_rows\<close> over grid
  column 0 writes outside the buffer of the result on the worker at \<open>(1, 0)\<close>; on the
  worker at \<open>(0, 0)\<close>, which owns the whole result, row 0 of the result is
  \<open>30, 31, 34\<close> followed by two cells never written, while row 3 of the matrix is
  \<open>30, 31, 32, 33, 34\<close>, its entry \<open>(3, 2)\<close> being 32 on the worker at \<open>(1, 1)\<close>.
  The run of \<^verbatim>\<open>extract_cols\<close> over grid row 0 writes outside the buffer of the result
  on the worker at \<open>(0, 1)\<close>, and column 0 of the result on the worker at \<open>(0, 0)\<close>
  is \<open>3, 13, 43, 53\<close> followed by three cells never written, while column 3 of the
  matrix is \<open>3, 13, 23, 33, 43, 53, 63\<close>, its entry \<open>(2, 3)\<close> being 23.
\<close>

theorem extract_rows_example_fails:
  "bindE (example_worker 0 0) (\<lambda>w0. bindE (example_worker 1 0) (\<lambda>w1.
     extract_rows_column ref_kernels [w0, w1] example_rows)) = Inl OutOfBounds \<and>
   example_extracted_row 0 = Inr [Some 30, Some 31, Some 34, None, None] \<and>
   bindE (example_worker 1 1) (\<lambda>(A, h). DistributedMatrix_global A h 3 2) = Inr (Some 32) \<and>
   bindE (example_worker 0 0) (\<lambda>w0. bindE (example_worker 0 1) (\<lambda>w1.
     extract_cols_row ref_kernels [w0, w1] example_rows)) = Inl OutOfBounds \<and>
   example_extracted_col 0 =
     Inr [Some 3, Some 13, Some 43, Some 53, None, None, None] \<and>
   bindE (example_worker 1 1) (\<lambda>(A, h). DistributedMatrix_global A h 2 3) = Inr (Some 23)"
  by code_simp

subsection \<open>Orthogonalisation\<close>

text \<open>
  A worker without a local entry enters the reductions with the values the caller
  passed, whatever the kernels are.
\<close>

lemma orthogonalize_contrib_no_local:
  assumes "lrows this = 0 \<or> lcols this = 0"
    and "orthogonalize_contrib K this r_max r_min h = Inr (tau, cmax, cmin, h')"
  shows "cmax = r_max \<and> cmin = r_min"
  using assms
  by (auto simp: orthogonalize_contrib_def Let_def bindE_def
      split: sum.splits prod.splits if_splits)

text \<open>
  On a grid of one worker the extrema are those of the diagonal, whatever is passed in.
\<close>

lemma orthogonalize_single_worker_example:
  "bindE (DistributedMatrix_ctor ref_kernels (Some active_grid) 1 1 default_MB default_NB
            empty_heap) (\<lambda>(A, h).
   bindE (DistributedMatrix_fill ref_kernels 2 A h) (\<lambda>h'.
     orthogonalize ref_kernels A 100 0 [] [] h')) = Inr (2, 2, [Some [Some 2], None])"
  by code_simp

text \<open>
  Claim C5 says that after \<^verbatim>\<open>orthogonalize(r_max, r_min)\<close> on an active matrix
  \<^verbatim>\<open>r_max\<close> and \<^verbatim>\<open>r_min\<close> are the greatest and least magnitude of the diagonal of the
  triangular factor over the grid. The two are assigned under \<^verbatim>\<open>if (lrows() && lcols())\<close>
  and reduced over the grid in any case. For the 1 by 1 matrix with entry 2 on 2 by 1
  workers, each passing 100 and 0: the worker at grid row 1 has no local entry, and both
  workers return \<^verbatim>\<open>r_max = 100\<close> and \<^verbatim>\<open>r_min = 0\<close>, while the diagonal is the single
  entry 2 (the kernels of \<open>ref_kernels\<close> leave the buffer as it is).
\<close>

theorem orthogonalize_stale_extrema:
  "bindE (single_entry_worker 0) (\<lambda>w0. bindE (single_entry_worker 1) (\<lambda>w1.
     orthogonalize_grid ref_kernels [w0, w1])) =
   Inr [(100, 0, [Some [Some 2], None]), (100, 0, [Some [], None])]"
  by code_simp

subsection \<open>Interpolative decomposition\<close>

lemma fold_res_vec_set:
  assumes "\<forall>c \<in> set cs. 0 \<le> c \<and> c < int (length pv) \<and> g c = Inr (val c)"
  shows "fold_res (\<lambda>c pv. bindE (g c) (\<lambda>v. vec_set pv c v)) cs pv =
           Inr (fold (\<lambda>c pv. pv[nat c := val c]) cs pv)"
  using assms
proof (induction cs arbitrary: pv)
  case Nil
  then show ?case by simp
next
  case (Cons c cs)
  have step: "bindE (g c) (\<lambda>v. vec_set pv c v) = Inr (pv[nat c := val c])"
    using Cons.prems by (simp add: vec_set_def)
  have "\<forall>c' \<in> set cs. 0 \<le> c' \<and> c' < int (length (pv[nat c := val c])) \<and> g c' = Inr (val c')"
    using Cons.prems by simp
  from Cons.IH[OF this] step show ?case by simp
qed

lemma length_fold_upd: "length (fold (\<lambda>c pv. pv[nat c := val c]) cs pv) = length pv"
  by (induction cs arbitrary: pv) simp_all

lemma fold_upd_nth_notin:
  "k \<notin> nat ` set cs \<Longrightarrow> (fold (\<lambda>c pv. pv[nat c := val c]) cs pv) ! k = pv ! k"
  by (induction cs arbitrary: pv) simp_all

lemma fold_upd_nth_in:
  assumes "distinct (map nat cs)" "c \<in> set cs" "nat c < length pv"
  shows "(fold (\<lambda>c pv. pv[nat c := val c]) cs pv) ! nat c = val c"
  using assms
proof (induction cs arbitrary: pv)
  case Nil
  then show ?case by simp
next
  case (Cons a cs)
  show ?case
  proof (cases "c = a")
    case True
    then have "nat c \<notin> nat ` set cs" using Cons.prems(1) by auto
    then show ?thesis using True Cons.prems(3) by (simp add: fold_upd_nth_notin)
  next
    case False
    then have "c \<in> set cs" using Cons.prems(2) by simp
    then show ?thesis using Cons.IH[of "pv[nat a := val a]"] Cons.prems by simp
  qed
qed

lemma distinct_nat_upto: "0 \<le> lo \<Longrightarrow> distinct (map nat [lo..hi])"
  by (auto simp: distinct_map inj_on_def)

text \<open>A loop that stores \<open>val c\<close> at every position \<open>c\<close> of \<open>0 .. n - 1\<close>.\<close>

lemma fill_loop:
  assumes "\<forall>c. 0 \<le> c \<and> c < n \<longrightarrow> g c = Inr (val c)" "n \<le> int (length pv)"
  shows "\<exists>pv'. fold_res (\<lambda>c pv. bindE (g c) (\<lambda>v. vec_set pv c v)) [0..n - 1] pv = Inr pv' \<and>
               length pv' = length pv \<and>
               (\<forall>c. 0 \<le> c \<and> c < n \<longrightarrow> pv' ! nat c = val c)"
proof -
  have "\<forall>c \<in> set [0..n - 1]. 0 \<le> c \<and> c < int (length pv) \<and> g c = Inr (val c)"
    using assms by auto
  from fold_res_vec_set[OF this]
  have e: "fold_res (\<lambda>c pv. bindE (g c) (\<lambda>v. vec_set pv c v)) [0..n - 1] pv =
             Inr (fold (\<lambda>c pv. pv[nat c := val c]) [0..n - 1] pv)" .
  have "\<forall>c. 0 \<le> c \<and> c < n \<longrightarrow> (fold (\<lambda>c pv. pv[nat c := val c]) [0..n - 1] pv) ! nat c = val c"
  proof (intro allI impI)
    fix c assume c: "0 \<le> c \<and> c < n"
    then have "c \<in> set [0..n - 1]" "nat c < length pv" using assms(2) by auto
    then show "(fold (\<lambda>c pv. pv[nat c := val c]) [0..n - 1] pv) ! nat c = val c"
      by (intro fold_upd_nth_in distinct_nat_upto) auto
  qed
  then show ?thesis using e by (simp add: length_fold_upd)
qed

lemma vec_get_neg: "i < 0 \<Longrightarrow> vec_get v i = Inl OutOfBounds"
  by (simp add: vec_get_def)

text \<open>
  Claim C3 as stated covers every active matrix. It fails for a view with a column
  offset: for the view of the second column of the 2 by 2 matrix \<open>owner_matrix\<close> the
  loop over the local columns of the owner asks \<open>gpiv\<close> for the global column \<open>-1\<close>,
  whatever the kernels return, and \<open>ID_column\<close> does not return.
\<close>

theorem ID_column_offset_view_fails:
  "DistributedMatrixWrapper_ctor 2 1 owner_matrix 0 1 = Inr offset_view \<and>
   (\<forall>K rel_tol abs_tol.
      \<exists>e. ID_column K offset_view fresh_X [] [] rel_tol abs_tol owner_heap = Inl e)"
proof (intro conjI allI)
  show "DistributedMatrixWrapper_ctor 2 1 owner_matrix 0 1 = Inr offset_view"
    by (simp add: DistributedMatrixWrapper_ctor_def offset_view_def owner_matrix_def
        active_def active_grid_def rows_def cols_def descset_def)
next
  fix K :: kernels and rel_tol abs_tol :: real
  obtain J1 gpiv1 r h1 where
    k: "pgeqpfmod K (rows offset_view) (cols offset_view) (data offset_view)
          (row_I offset_view) (col_J offset_view) (desc offset_view)
          [1..cols offset_view] [1..cols offset_view] 0 rel_tol abs_tol owner_heap =
        (J1, gpiv1, r, h1)"
    by (metis prod_cases4)
  have up: "[0..lcols offset_view - 1] = [0, 1]"
    by (simp add: offset_view_def owner_matrix_def upto_rec1)
  have g: "coll2g offset_view 0 = Inr (- 1)"
    by code_simp
  have a: "active offset_view" "\<not> cols offset_view < 0"
    by (simp_all add: active_def offset_view_def owner_matrix_def active_grid_def cols_def)
  show "\<exists>e. ID_column K offset_view fresh_X [] [] rel_tol abs_tol owner_heap = Inl e"
    unfolding ID_column_def
    using a k up g
    by (simp add: vec_resize_def vec_get_neg Let_def)
qed

text \<open>
  A result matrix that is a view, and a column block size 0, make \<open>ID_column\<close> fail
  as well: the assertion of \<open>copy\<close> on the rows of the view, and the division in
  \<open>coll2g\<close>.
\<close>

lemma ID_column_view_result_fails:
  "ID_column ref_kernels owner_matrix
     (fresh_X\<lparr>wrapper := Some \<lparr>w_rows = 0, w_cols = 0, w_i = 0, w_j = 0\<rparr>\<rparr>)
     [] [] 0 0 owner_heap = Inl AssertionFailure"
  by code_simp

lemma ID_column_zero_block_traps:
  "ID_column ref_kernels (owner_matrix\<lparr>desc := descset 2 2 32 0 0 0 0 2\<rparr>) fresh_X
     [] [] 0 0 owner_heap = Inl DivisionTrap"
  by code_simp

text \<open>
  Claim C3, amended. Let the matrix be active and not an offset view (\<open>I() = J() = 1\<close>),
  with nine descriptor entries, \<open>NB() \<ge> 1\<close>, \<open>lcols() \<ge> 0\<close>, \<open>lcols() + NB()\<close> and
  \<open>cols()\<close> at most \<open>INT_MAX\<close>, and every local column mapped by \<open>coll2g\<close> to a
  global column from 0 to \<open>cols() - 1\<close>. Let \<open>X\<close> be a plain matrix, not a view, whose
  buffer is null or allocated. Let \<open>pgeqpfmod\<close> return the pivoted indices \<open>J1\<close> and
  the permutation \<open>gpiv1\<close>, of \<open>cols()\<close> entries each, and a rank \<open>r\<close> from 0 to
  the smaller of \<open>rows()\<close> and \<open>cols()\<close>; let \<open>numroc\<close> give local counts \<open>lr\<close> and
  \<open>lc\<close> of the \<open>r\<close> by \<open>cols() - r\<close> result that are not negative and whose product
  is at most \<open>INT_MAX\<close>, and let \<open>descinit\<close> accept its descriptor. Then
  \<open>ID_column\<close> returns; \<open>piv\<close> has \<open>lcols() + NB()\<close> entries and holds, for each
  local column \<open>c\<close>, the entry of \<open>gpiv1\<close> at its global column \<open>coll2g(c)\<close>;
  \<open>ind\<close> has \<open>r\<close> entries, entry \<open>c\<close> being \<open>J1[c] - 1\<close> as a \<^verbatim>\<open>std::size_t\<close>,
  the first \<open>r\<close> pivoted global column indices; and \<open>X\<close> is a newly allocated
  \<open>r\<close> by \<open>cols() - r\<close> matrix, its former buffer freed, whose buffer is what
  \<open>ptrsm\<close> (left, upper, no transpose, non-unit, factor 1) leaves from the leading
  \<open>r\<close> by \<open>r\<close> block of the factored matrix and the copy, made by \<open>pgemr2d\<close>, of
  its rows \<open>0 .. r - 1\<close> of the columns from \<open>r\<close> on.
\<close>

theorem ID_column_outputs:
  assumes act: "grid this = Some g" "g_active g"
    and origin: "row_I this = 1" "col_J this = 1"
    and dlen: "length (desc this) = 9"
    and Xplain: "wrapper X = None"
    and Xbuf: "data X = None \<or> (\<exists>a buf. data X = Some a \<and> buffer_at h1 a = Some buf)"
    and k: "pgeqpfmod K (rows this) (cols this) (data this) (row_I this) (col_J this)
              (desc this) [1..cols this] [1..cols this] 0 rel_tol abs_tol h = (J1, gpiv1, r, h1)"
    and r: "0 \<le> r" "r \<le> rows this" "r \<le> cols this"
    and cmax: "cols this \<le> INT_MAX"
    and lens: "int (length J1) = cols this" "int (length gpiv1) = cols this"
    and nb: "1 \<le> NB this" "0 \<le> lcols this" "lcols this + NB this \<le> INT_MAX"
    and loc: "\<forall>c. 0 \<le> c \<and> c < lcols this \<longrightarrow>
                (\<exists>gc. coll2g this c = Inr gc \<and> 0 \<le> gc \<and> gc < cols this)"
    and lr: "lr = numroc K r default_MB (g_prow g) 0 (g_nprows g)"
    and lc: "lc = numroc K (cols this - r) default_NB (g_pcol g) 0 (g_npcols g)"
    and alloc: "0 \<le> lr" "0 \<le> lc" "lr * lc \<le> INT_MAX"
    and dinit: "descinit_info K r (cols this - r) default_MB default_NB 0 0 (g_ctxt g) (max lr 1) = 0"
  shows "\<exists>X' piv' ind' h' hd.
           ID_column K this X piv ind rel_tol abs_tol h = Inr (X', piv', ind', h') \<and>
           int (length piv') = lcols this + NB this \<and>
           (\<forall>c gc. 0 \<le> c \<and> c < lcols this \<and> coll2g this c = Inr gc \<longrightarrow>
              piv' ! nat c = gpiv1 ! nat gc) \<and>
           int (length ind') = r \<and>
           (\<forall>c. 0 \<le> c \<and> c < r \<longrightarrow> ind' ! nat c = to_size_t (sub32 (J1 ! nat c) 1)) \<and>
           rows X' = r \<and> cols X' = cols this - r \<and> data X' = Some (length h1) \<and>
           delete_array (data X) (h1 @ [Some (replicate (nat (lr * lc)) None)]) = Inr hd \<and>
           h' = ptrsm K Side_L UpLo_U Trans_N Diag_N r (cols this - r) 1
                  (data this) (row_I this) (col_J this) (desc this)
                  (data X') 1 1 (desc X')
                  (if r = 0 \<or> cols this - r = 0 then hd
                   else pgemr2d K r (cols this - r) (data this) (row_I this) (col_J this + r)
                          (desc this) (data X') 1 1 (desc X') (g_ctxt g) hd)"
proof -
  have active: "active this" using act by (simp add: active_def)
  have c0: "\<not> cols this < 0" using r by simp
  have M: "INT_MAX = 2147483647" by (simp add: INT_MAX_def)
  have sum: "add32 (lcols this) (NB this) = lcols this + NB this"
    using nb M by (intro add32_id) linarith+
  have dif: "sub32 (cols this) r = cols this - r"
    using r cmax M by (intro sub32_id) linarith+
  have nn: "0 \<le> lr * lc" using alloc(1,2) by simp
  have prod: "mul32 lr lc = lr * lc"
    using nn alloc(3) M by (intro mul32_id) linarith+
  \<comment> \<open>the two vectors\<close>
  define piv1 where "piv1 = take (nat (lcols this + NB this)) piv @
                            replicate (nat (lcols this + NB this) - length piv) (0::int)"
  have rz1: "vec_resize piv (lcols this + NB this) = Inr piv1"
    using nb by (simp add: vec_resize_def piv1_def)
  have lp1: "int (length piv1) = lcols this + NB this"
    using nb by (simp add: piv1_def)
  define ind1 where "ind1 = take (nat r) ind @ replicate (nat r - length ind) (0::nat)"
  have rz2: "vec_resize ind r = Inr ind1"
    using r by (simp add: vec_resize_def ind1_def)
  have li1: "int (length ind1) = r" using r by (simp add: ind1_def)
  \<comment> \<open>the loop over the local columns\<close>
  from loc obtain gcol where
    gcol: "\<forall>c. 0 \<le> c \<and> c < lcols this \<longrightarrow>
             coll2g this c = Inr (gcol c) \<and> 0 \<le> gcol c \<and> gcol c < cols this"
    by metis
  have g1: "\<forall>c. 0 \<le> c \<and> c < lcols this \<longrightarrow>
              bindE (coll2g this c) (\<lambda>gc. vec_get gpiv1 gc) = Inr (gpiv1 ! nat (gcol c))"
    using gcol lens by (auto simp: vec_get_def)
  have "lcols this \<le> int (length piv1)" using lp1 nb by simp
  from fill_loop[OF g1 this] obtain piv2 where
    p2: "fold_res (\<lambda>c pv. bindE (bindE (coll2g this c) (\<lambda>gc. vec_get gpiv1 gc))
                      (\<lambda>v. vec_set pv c v)) [0..lcols this - 1] piv1 = Inr piv2"
    and lp2: "length piv2 = length piv1"
    and vp2: "\<forall>c. 0 \<le> c \<and> c < lcols this \<longrightarrow> piv2 ! nat c = gpiv1 ! nat (gcol c)"
    by blast
  have vp2': "\<forall>c gc. 0 \<le> c \<and> c < lcols this \<and> coll2g this c = Inr gc \<longrightarrow>
                piv2 ! nat c = gpiv1 ! nat gc"
    using vp2 gcol by auto
  have assoc: "(\<lambda>c pv. bindE (coll2g this c) (\<lambda>gc. bindE (vec_get gpiv1 gc) (\<lambda>v. vec_set pv c v)))
             = (\<lambda>c pv. bindE (bindE (coll2g this c) (\<lambda>gc. vec_get gpiv1 gc)) (\<lambda>v. vec_set pv c v))"
    by (auto simp: bindE_def fun_eq_iff split: sum.splits)
  \<comment> \<open>the loop over the retained columns\<close>
  have g2: "\<forall>c. 0 \<le> c \<and> c < r \<longrightarrow>
              bindE (vec_get J1 c) (\<lambda>j. Inr (to_size_t (sub32 j 1))) =
                Inr (to_size_t (sub32 (J1 ! nat c) 1))"
    using r lens by (auto simp: vec_get_def)
  have "r \<le> int (length ind1)" using li1 by simp
  from fill_loop[OF g2 this] obtain ind2 where
    i2: "fold_res (\<lambda>c iv. bindE (bindE (vec_get J1 c) (\<lambda>j. Inr (to_size_t (sub32 j 1))))
                      (\<lambda>v. vec_set iv c v)) [0..r - 1] ind1 = Inr ind2"
    and li2: "length ind2 = length ind1"
    and vi2: "\<forall>c. 0 \<le> c \<and> c < r \<longrightarrow> ind2 ! nat c = to_size_t (sub32 (J1 ! nat c) 1)"
    by blast
  have assoc2: "(\<lambda>c iv. bindE (vec_get J1 c) (\<lambda>j. vec_set iv c (to_size_t (sub32 j 1))))
             = (\<lambda>c iv. bindE (bindE (vec_get J1 c) (\<lambda>j. Inr (to_size_t (sub32 j 1))))
                  (\<lambda>v. vec_set iv c v))"
    by (auto simp: bindE_def fun_eq_iff split: sum.splits)
  \<comment> \<open>the wrapper of the leading block and the new matrix\<close>
  define R1 where "R1 = \<lparr>grid = grid this, data = data this, lrows = lrows this,
      lcols = lcols this, desc = desc this,
      wrapper = Some \<lparr>w_rows = r, w_cols = r, w_i = 0, w_j = 0\<rparr>\<rparr>"
  have w: "DistributedMatrixWrapper_ctor r r this 0 0 = Inr R1"
    using r dlen by (simp add: DistributedMatrixWrapper_ctor_def R1_def)
  define tmp where "tmp = \<lparr>grid = Some g, data = Some (length h1), lrows = lr, lcols = lc,
      desc = descset r (cols this - r) default_MB default_NB 0 0 (g_ctxt g) (max lr 1),
      wrapper = None\<rparr>"
  define h2 where "h2 = h1 @ [Some (replicate (nat (lr * lc)) None)]"
  have lr': "numroc K r 32 (g_prow g) 0 (g_nprows g) = lr"
    using lr by (simp add: default_MB_def)
  have lc': "numroc K (cols this - r) 32 (g_pcol g) 0 (g_npcols g) = lc"
    using lc by (simp add: default_NB_def)
  have ct: "DistributedMatrix_ctor K (grid this) r (cols this - r) default_MB default_NB h1 =
              Inr (tmp, h2)"
    using act r nn dinit prod
    by (simp add: lr' lc' DistributedMatrix_ctor_def active_def prow_def pcol_def nprows_def npcols_def
        new_array_def ctxt_def default_MB_def default_NB_def tmp_def h2_def Let_def)
  obtain hd where del: "delete_array (data X) h2 = Inr hd"
    using Xbuf
    by (auto simp: delete_array_def h2_def buffer_at_def nth_append split: if_splits)
  define X1 where "X1 = X\<lparr>grid := Some g, lrows := lr, lcols := lc,
      desc := descset r (cols this - r) default_MB default_NB 0 0 (g_ctxt g) (max lr 1),
      data := Some (length h1)\<rparr>"
  have mv: "DistributedMatrix_move_assign X tmp h2 = Inr (X1, tmp\<lparr>data := None\<rparr>, hd)"
    using del by (simp add: DistributedMatrix_move_assign_def tmp_def X1_def descset_def Let_def)
  have dt: "DistributedMatrix_dtor (tmp\<lparr>data := None\<rparr>) hd = Inr hd"
    by (simp add: DistributedMatrix_dtor_def DistributedMatrix_clear_def delete_array_def Let_def)
  have X1_rows: "rows X1 = r" "cols X1 = cols this - r" "row_I X1 = 1" "col_J X1 = 1"
    "active X1" "data X1 = Some (length h1)"
    using Xplain act by (simp_all add: X1_def rows_def cols_def descset_def row_I_def col_J_def
        active_def)
  define hc where "hc = (if r = 0 \<or> cols this - r = 0 then hd
                   else pgemr2d K r (cols this - r) (data this) (row_I this) (col_J this + r)
                          (desc this) (data X1) 1 1 (desc X1) (g_ctxt g) hd)"
  have cp: "copy K r (cols this - r) this 0 r X1 0 0 (g_ctxt g) hd = Inr hc"
    using r X1_rows by (simp add: copy_def hc_def)
  have R1_facts: "active R1" "rows R1 = r" "cols R1 = r" "row_I R1 = 1" "col_J R1 = 1"
    "data R1 = data this" "desc R1 = desc this"
    using act by (simp_all add: R1_def active_def rows_def cols_def row_I_def col_J_def)
  define h6 where "h6 = ptrsm K Side_L UpLo_U Trans_N Diag_N r (cols this - r) 1
                  (data this) (row_I this) (col_J this) (desc this)
                  (data X1) 1 1 (desc X1) hc"
  have ts: "trsm K Side_L UpLo_U Trans_N Diag_N 1 R1 X1 hc = Inr h6"
    using R1_facts X1_rows origin by (simp add: trsm_def h6_def)
  have wd: "DistributedMatrixWrapper_dtor R1 h6 = Inr h6"
    by (simp add: DistributedMatrixWrapper_dtor_def DistributedMatrix_dtor_def
        DistributedMatrix_clear_def delete_array_def Let_def)
  have run: "ID_column K this X piv ind rel_tol abs_tol h = Inr (X1, piv2, ind2, h6)"
    unfolding ID_column_def
    using active c0 k rz1 rz2 p2 i2 w ct mv dt cp ts wd act(1)
    by (simp add: assoc assoc2 sum dif)
  show ?thesis
    using run lp1 lp2 vp2' li1 li2 vi2 X1_rows del
    by (auto simp: h6_def hc_def h2_def)
qed

theorem ID_column_outputs_witness:
  "\<exists>X' piv' ind' h'.
     ID_column ref_kernels owner_matrix fresh_X [] [] 0 0 owner_heap = Inr (X', piv', ind', h') \<and>
     int (length piv') = 34 \<and> piv' ! 0 = 2 \<and> piv' ! 1 = 1 \<and>
     int (length ind') = 1 \<and> ind' ! 0 = 1 \<and> rows X' = 1 \<and> cols X' = 1"
proof -
  have a: "grid owner_matrix = Some active_grid" "g_active active_grid"
    by (simp_all add: owner_matrix_def active_grid_def)
  have o: "row_I owner_matrix = 1" "col_J owner_matrix = 1"
    by (simp_all add: row_I_def col_J_def owner_matrix_def)
  have dl: "length (desc owner_matrix) = 9" by (simp add: owner_matrix_def descset_def)
  have xp: "wrapper fresh_X = None" by (simp add: fresh_X_def)
  have xb: "data fresh_X = None \<or>
            (\<exists>a buf. data fresh_X = Some a \<and> buffer_at owner_heap a = Some buf)"
    by (simp add: fresh_X_def)
  have rc: "rows owner_matrix = 2" "cols owner_matrix = 2" "NB owner_matrix = 32"
    "lcols owner_matrix = 2"
    by (simp_all add: rows_def cols_def NB_def owner_matrix_def descset_def)
  have u12: "[1..2::int] = [1, 2]" by (simp add: upto_rec1)
  have k: "pgeqpfmod ref_kernels (rows owner_matrix) (cols owner_matrix) (data owner_matrix)
             (row_I owner_matrix) (col_J owner_matrix) (desc owner_matrix)
             [1..cols owner_matrix] [1..cols owner_matrix] 0 0 0 owner_heap =
           ([2, 1], [2, 1], 1, owner_heap)"
    by (simp add: ref_kernels_def rc u12)
  have r: "(0::int) \<le> 1" "1 \<le> rows owner_matrix" "1 \<le> cols owner_matrix"
    by (simp_all add: rc)
  have cm: "cols owner_matrix \<le> INT_MAX" by (simp add: rc INT_MAX_def)
  have l: "int (length [2, 1 :: int]) = cols owner_matrix" by (simp add: rc)
  have nb: "1 \<le> NB owner_matrix" "0 \<le> lcols owner_matrix"
    "lcols owner_matrix + NB owner_matrix \<le> INT_MAX"
    by (simp_all add: rc INT_MAX_def)
  have g0: "coll2g owner_matrix 0 = Inr 0" by code_simp
  have g1: "coll2g owner_matrix 1 = Inr 1" by code_simp
  have loc: "\<forall>c. 0 \<le> c \<and> c < lcols owner_matrix \<longrightarrow>
      (\<exists>gc. coll2g owner_matrix c = Inr gc \<and> 0 \<le> gc \<and> gc < cols owner_matrix)"
  proof (intro allI impI)
    fix c :: int assume "0 \<le> c \<and> c < lcols owner_matrix"
    then have "c = 0 \<or> c = 1" using rc by auto
    then show "\<exists>gc. coll2g owner_matrix c = Inr gc \<and> 0 \<le> gc \<and> gc < cols owner_matrix"
      using g0 g1 by (auto simp: rc)
  qed
  have n1: "count_numroc 1 32 0 0 1 = 1" by code_simp
  have lr: "1 = numroc ref_kernels 1 default_MB (g_prow active_grid) 0 (g_nprows active_grid)"
    by (simp add: ref_kernels_def default_MB_def active_grid_def n1)
  have lc: "1 = numroc ref_kernels (cols owner_matrix - 1) default_NB (g_pcol active_grid) 0
                  (g_npcols active_grid)"
    by (simp add: ref_kernels_def default_NB_def active_grid_def rc n1)
  have al: "(0::int) \<le> 1" "(1::int) * 1 \<le> INT_MAX" by (simp_all add: INT_MAX_def)
  have di: "descinit_info ref_kernels 1 (cols owner_matrix - 1) default_MB default_NB 0 0
              (g_ctxt active_grid) (max 1 1) = 0"
    by (simp add: ref_kernels_def)
  from ID_column_outputs [OF a o dl xp xb k r cm l l nb loc lr lc al(1) al(1) al(2) di,
      of "[]" "[]"]
  obtain X' piv' ind' h' where
    run: "ID_column ref_kernels owner_matrix fresh_X [] [] 0 0 owner_heap = Inr (X', piv', ind', h')"
    and lp: "int (length piv') = lcols owner_matrix + NB owner_matrix"
    and vp: "\<forall>c gc. 0 \<le> c \<and> c < lcols owner_matrix \<and> coll2g owner_matrix c = Inr gc \<longrightarrow>
              piv' ! nat c = [2, 1] ! nat gc"
    and li: "int (length ind') = 1"
    and vi: "\<forall>c. 0 \<le> c \<and> c < 1 \<longrightarrow> ind' ! nat c = to_size_t (sub32 ([2, 1] ! nat c) 1)"
    and sh: "rows X' = 1" "cols X' = cols owner_matrix - 1"
    by blast
  have p0: "piv' ! 0 = 2"
    using vp [rule_format, of 0 0] g0 by (simp add: rc)
  have p1: "piv' ! 1 = 1"
    using vp [rule_format, of 1 1] g1 by (simp add: rc)
  have "to_size_t (sub32 2 1) = 1" by code_simp
  then have i0: "ind' ! 0 = 1"
    using vi [rule_format, of 0] by simp
  show ?thesis
    using run lp p0 p1 li i0 sh by (simp add: rc)
qed

end
